theory Spec2Isabelle
  imports Complex_Main "HOL-Library.Word" "HOL-Library.Sublist"
begin

section \<open>Values: int16 samples, float64 results, exceptions\<close>

text \<open>
  A waveform is the numpy array that \<open>load_wave_data\<close> builds with
  \<open>np.frombuffer(raw_data, dtype=np.int16)\<close>: a sequence of 16-bit two's complement
  samples. Arithmetic that numpy performs inside that dtype (\<open>waveform ** 2\<close>,
  \<open>np.abs(waveform)\<close>) wraps around and is modelled on \<open>16 word\<close>. Results that numpy
  computes in float64 are modelled by real numbers extended with the three special
  values; rounding is not modelled.
\<close>

type_synonym int16 = "16 word"
type_synonym waveform = "int16 list"

datatype float64 = Num real | PosInf | NegInf | NaN

datatype error =
    ValueError string
  | ZeroDivisionError string
  | WaveError string
  | OSError string
  | Exception string

text \<open>\<open>str(e)\<close>: the message of an exception.\<close>

fun str :: "error \<Rightarrow> string" where
  "str (ValueError m) = m"
| "str (ZeroDivisionError m) = m"
| "str (WaveError m) = m"
| "str (OSError m) = m"
| "str (Exception m) = m"

subsection \<open>float64 operations used by the level computations\<close>

text \<open>\<open>np.log10\<close>: minus infinity at zero and NaN below it (numpy warns, it does not raise).\<close>

fun np_log10 :: "float64 \<Rightarrow> float64" where
  "np_log10 (Num x) = (if 0 < x then Num (log 10 x) else if x = 0 then NegInf else NaN)"
| "np_log10 PosInf = PosInf"
| "np_log10 NegInf = NaN"
| "np_log10 NaN = NaN"

fun np_sqrt :: "float64 \<Rightarrow> float64" where
  "np_sqrt (Num x) = (if 0 \<le> x then Num (sqrt x) else NaN)"
| "np_sqrt PosInf = PosInf"
| "np_sqrt NegInf = NaN"
| "np_sqrt NaN = NaN"

text \<open>Division and multiplication of a float64 by a positive finite constant.\<close>

fun fdiv :: "float64 \<Rightarrow> real \<Rightarrow> float64" where
  "fdiv (Num x) c = Num (x / c)"
| "fdiv PosInf c = PosInf"
| "fdiv NegInf c = NegInf"
| "fdiv NaN c = NaN"

fun fmul :: "real \<Rightarrow> float64 \<Rightarrow> float64" where
  "fmul c (Num x) = Num (c * x)"
| "fmul c PosInf = PosInf"
| "fmul c NegInf = NegInf"
| "fmul c NaN = NaN"

fun fsub :: "float64 \<Rightarrow> float64 \<Rightarrow> float64" where
  "fsub (Num a) (Num b) = Num (a - b)"
| "fsub NaN b = NaN"
| "fsub a NaN = NaN"
| "fsub PosInf PosInf = NaN"
| "fsub NegInf NegInf = NaN"
| "fsub PosInf b = PosInf"
| "fsub NegInf b = NegInf"
| "fsub (Num a) PosInf = NegInf"
| "fsub (Num a) NegInf = PosInf"

text \<open>The constant \<open>1e-6\<close> of \<open>tools.py\<close>.\<close>

definition ref_level :: real where
  "ref_level = 1 / 10 ^ 6"

subsection \<open>numpy on int16 arrays\<close>

text \<open>The conversion of an int16 sample to float64 is exact.\<close>

definition float_of_int16 :: "int16 \<Rightarrow> real" where
  "float_of_int16 x = real_of_int (sint x)"

text \<open>\<open>np.abs\<close> stays in int16: the absolute value of -32768 is -32768.\<close>

definition abs16 :: "int16 \<Rightarrow> int16" where
  "abs16 x = (if sint x < 0 then - x else x)"

definition np_abs :: "waveform \<Rightarrow> waveform" where
  "np_abs w = map abs16 w"

text \<open>\<open>waveform ** 2\<close> stays in int16 as well: the square wraps around.\<close>

definition np_square :: "waveform \<Rightarrow> waveform" where
  "np_square w = map (\<lambda>x. x * x) w"

definition max16 :: "int16 \<Rightarrow> int16 \<Rightarrow> int16" where
  "max16 a b = (if sint a < sint b then b else a)"

definition min16 :: "int16 \<Rightarrow> int16 \<Rightarrow> int16" where
  "min16 a b = (if sint b < sint a then b else a)"

text \<open>\<open>np.max\<close> and \<open>np.min\<close> raise ValueError on an array without elements.\<close>

fun np_max :: "waveform \<Rightarrow> error + int16" where
  "np_max [] = Inl (ValueError ''zero-size array to reduction operation maximum which has no identity'')"
| "np_max (x # xs) = Inr (foldl max16 x xs)"

fun np_min :: "waveform \<Rightarrow> error + int16" where
  "np_min [] = Inl (ValueError ''zero-size array to reduction operation minimum which has no identity'')"
| "np_min (x # xs) = Inr (foldl min16 x xs)"

text \<open>\<open>np.mean\<close> accumulates in float64; the mean of an empty array is NaN (a warning).\<close>

definition np_mean :: "waveform \<Rightarrow> float64" where
  "np_mean w = (if w = [] then NaN
                else Num ((\<Sum>x\<leftarrow>w. float_of_int16 x) / real (length w)))"

text \<open>\<open>waveform[waveform != 0]\<close>: a new array with the nonzero samples.\<close>

definition nonzero :: "waveform \<Rightarrow> waveform" where
  "nonzero w = filter (\<lambda>x. x \<noteq> 0) w"

section \<open>tools.py\<close>

definition wave_to_db :: "waveform \<Rightarrow> float64" where
  "wave_to_db w =
     (let sq_amplitude = np_square w;
          mean_squared_amplitude = np_mean sq_amplitude
      in fmul 10 (np_log10 (fdiv mean_squared_amplitude ref_level)))"

definition wave_to_db_rms :: "waveform \<Rightarrow> float64" where
  "wave_to_db_rms w =
     (let sq_amplitude = np_mean (np_square w);
          rms_value = np_sqrt sq_amplitude
      in fmul 20 (np_log10 (fdiv rms_value ref_level)))"

record db_levels =
  max_db :: float64
  min_db :: float64
  dynamic_range :: float64

text \<open>The level \<open>20 * np.log10(a / 1e-6) if a > 0 else -np.inf\<close> of an int16 amplitude.\<close>

definition amplitude_db :: "int16 \<Rightarrow> float64" where
  "amplitude_db a =
     (if 0 < sint a then fmul 20 (np_log10 (fdiv (Num (float_of_int16 a)) ref_level))
      else NegInf)"

definition detect_db_range :: "waveform \<Rightarrow> error + db_levels" where
  "detect_db_range w =
     (case np_max (np_abs w) of
        Inl e \<Rightarrow> Inl e
      | Inr max_amplitude \<Rightarrow>
          (case np_min (np_abs (nonzero w)) of
             Inl e \<Rightarrow> Inl e
           | Inr min_amplitude \<Rightarrow>
               (let mx = amplitude_db max_amplitude;
                    mn = amplitude_db min_amplitude;
                    dr = (if mn \<noteq> NegInf then fsub mx mn else Num 0)
                in Inr \<lparr>max_db = mx, min_db = mn, dynamic_range = dr\<rparr>)))"

text \<open>
  \<open>normalize_waveform\<close> returns a float64 array (\<open>waveform / max_val\<close>) or the int16
  input itself.
\<close>

datatype ndarray = Int16Array waveform | Float64Array "real list"

definition normalize_waveform :: "waveform \<Rightarrow> error + ndarray" where
  "normalize_waveform w =
     (case np_max (np_abs w) of
        Inl e \<Rightarrow> Inl e
      | Inr max_val \<Rightarrow>
          if 0 < sint max_val
          then Inr (Float64Array (map (\<lambda>x. float_of_int16 x / float_of_int16 max_val) w))
          else Inr (Int16Array w))"

section \<open>analyzer.py: reading a WAV file\<close>

text \<open>
  What the \<open>wave\<close> module sees of a RIFF/WAVE file with uncompressed PCM data: the
  fields of the format chunk (the sample width in bytes), the size that the header of
  the data chunk declares, and the bytes that the file holds after that header. A
  truncated file holds fewer bytes than declared; bytes beyond the declared size
  belong to later chunks.
\<close>

record wav_file =
  framerate :: nat
  nchannels :: nat
  sampwidth :: nat
  data_size :: nat
  data :: "8 word list"

text \<open>
  The file system maps a path to what \<open>wave.open\<close> finds there: the exception that
  opening the file or parsing the RIFF structure raises (\<open>FileNotFoundError\<close>,
  \<open>wave.Error\<close> for a file that is no PCM WAVE file, \<open>EOFError\<close>), or the file.
\<close>

type_synonym filesystem = "string \<Rightarrow> error + wav_file"

text \<open>
  \<open>wave.open(file_path, "rb")\<close>: after the format chunk is read, the sample width is
  tested first and the number of channels second.
\<close>

definition wave_open :: "filesystem \<Rightarrow> string \<Rightarrow> error + wav_file" where
  "wave_open fs file_path =
     (case fs file_path of
        Inl e \<Rightarrow> Inl e
      | Inr f \<Rightarrow>
          if sampwidth f = 0 then Inl (WaveError ''bad sample width'')
          else if nchannels f = 0 then Inl (WaveError ''bad # of channels'')
          else Inr f)"

text \<open>
  \<open>getnframes\<close>: the declared size of the data chunk divided by the frame size.
\<close>

definition getnframes :: "wav_file \<Rightarrow> nat" where
  "getnframes f = data_size f div (nchannels f * sampwidth f)"

text \<open>
  \<open>readframes(n)\<close> on a freshly opened file: at most \<open>n\<close> frames. The chunk reader
  limits the request to the declared size, and the file gives the bytes it has.
\<close>

definition readframes :: "wav_file \<Rightarrow> nat \<Rightarrow> 8 word list" where
  "readframes f n =
     (if n = 0 then []
      else take (min (n * (nchannels f * sampwidth f)) (data_size f)) (data f))"

text \<open>
  \<open>np.frombuffer(raw_data, dtype=np.int16)\<close>: consecutive pairs of bytes, low byte
  first, whatever the sample width of the file is.
\<close>

fun int16_of_bytes :: "8 word list \<Rightarrow> waveform" where
  "int16_of_bytes (lo # hi # bs) = word_cat hi lo # int16_of_bytes bs"
| "int16_of_bytes bs = []"

definition np_frombuffer :: "8 word list \<Rightarrow> error + waveform" where
  "np_frombuffer raw =
     (if length raw mod 2 \<noteq> 0
      then Inl (ValueError ''buffer size must be a multiple of element size'')
      else Inr (int16_of_bytes raw))"

text \<open>The slice \<open>audio_data[0::2]\<close>.\<close>

fun every_other :: "'a list \<Rightarrow> 'a list" where
  "every_other (x # y # xs) = x # every_other xs"
| "every_other xs = xs"

text \<open>Python's \<open>/\<close> on two integers: a float, ZeroDivisionError when the divisor is 0.\<close>

definition true_div :: "nat \<Rightarrow> nat \<Rightarrow> error + real" where
  "true_div a b = (if b = 0 then Inl (ZeroDivisionError ''division by zero'')
                   else Inr (real a / real b))"

record wave_info =
  info_sample_rate :: nat
  info_total_samples :: nat
  info_channels :: nat
  info_sample_width :: nat
  info_duration :: real
  info_channel_type :: string

definition get_wave_info :: "filesystem \<Rightarrow> string \<Rightarrow> error + wave_info" where
  "get_wave_info fs file_path =
     (case (case wave_open fs file_path of
              Inl e \<Rightarrow> Inl e
            | Inr wav_obj \<Rightarrow>
                (case true_div (getnframes wav_obj) (framerate wav_obj) of
                   Inl e \<Rightarrow> Inl e
                 | Inr d \<Rightarrow>
                     Inr \<lparr>info_sample_rate = framerate wav_obj,
                          info_total_samples = getnframes wav_obj,
                          info_channels = nchannels wav_obj,
                          info_sample_width = sampwidth wav_obj,
                          info_duration = d,
                          info_channel_type =
                            (if nchannels wav_obj = 1 then ''Mono'' else ''Stereo'')\<rparr>)) of
        Inl e \<Rightarrow> Inl (Exception (''Error reading WAV file info: '' @ str e))
      | Inr info \<Rightarrow> Inr info)"

record wave_data =
  wd_waveform :: waveform
  wd_sample_rate :: nat
  wd_duration :: real
  wd_channels :: nat

definition load_wave_data :: "filesystem \<Rightarrow> string \<Rightarrow> error + wave_data" where
  "load_wave_data fs file_path =
     (case (case wave_open fs file_path of
              Inl e \<Rightarrow> Inl e
            | Inr wav_obj \<Rightarrow>
                (let sample_rate = framerate wav_obj;
                     total_samples = getnframes wav_obj;
                     channels = nchannels wav_obj;
                     raw_data = readframes wav_obj total_samples
                 in case np_frombuffer raw_data of
                      Inl e \<Rightarrow> Inl e
                    | Inr audio_data \<Rightarrow>
                        (let waveform = (if channels = 1 then audio_data
                                         else every_other audio_data)
                         in case true_div total_samples sample_rate of
                              Inl e \<Rightarrow> Inl e
                            | Inr d \<Rightarrow>
                                Inr \<lparr>wd_waveform = waveform, wd_sample_rate = sample_rate,
                                     wd_duration = d, wd_channels = channels\<rparr>))) of
        Inl e \<Rightarrow> Inl (Exception (''Error loading WAV data: '' @ str e))
      | Inr r \<Rightarrow> Inr r)"

text \<open>
  The reference decoding of 16-bit PCM: the sample of frame \<open>i\<close> and channel \<open>c\<close> is
  the little-endian 16-bit integer at byte offset \<open>2 * (i * nchannels + c)\<close> of the
  data chunk.
\<close>

definition pcm16_sample :: "wav_file \<Rightarrow> nat \<Rightarrow> nat \<Rightarrow> int16" where
  "pcm16_sample f i c =
     word_cat (data f ! (2 * (i * nchannels f + c) + 1)) (data f ! (2 * (i * nchannels f + c)))"

section \<open>analyzer.py: level metrics\<close>

record audio_levels =
  max_amplitude :: int16
  min_amplitude :: int16
  mean_amplitude :: float64
  avg_db :: float64
  rms_db :: float64
  db_range :: db_levels

definition analyze_audio_levels :: "waveform \<Rightarrow> error + audio_levels" where
  "analyze_audio_levels w =
     (case np_max (np_abs w) of
        Inl e \<Rightarrow> Inl e
      | Inr mx \<Rightarrow>
          (case np_min (np_abs w) of
             Inl e \<Rightarrow> Inl e
           | Inr mn \<Rightarrow>
               (let mean = np_mean (np_abs w);
                    avg = wave_to_db w;
                    rms = wave_to_db_rms w
                in case detect_db_range w of
                     Inl e \<Rightarrow> Inl e
                   | Inr r \<Rightarrow>
                       Inr \<lparr>max_amplitude = mx, min_amplitude = mn, mean_amplitude = mean,
                            avg_db = avg, rms_db = rms, db_range = r\<rparr>)))"

section \<open>audio\_processing.py: Butterworth filters\<close>

text \<open>
  \<open>scipy.signal.butter\<close> followed by \<open>filtfilt\<close> and \<open>astype\<close> is a parameter of the
  model: the filter order, the normalised critical frequencies, the band type and the
  waveform go in, a filtered waveform or an exception comes out.
\<close>

datatype btype = Low | High | Band

type_synonym butter_filtfilt = "nat \<Rightarrow> real list \<Rightarrow> btype \<Rightarrow> waveform \<Rightarrow> error + waveform"

text \<open>Python's \<open>/\<close> on numbers, here on reals.\<close>

definition py_div :: "real \<Rightarrow> real \<Rightarrow> error + real" where
  "py_div a b = (if b = 0 then Inl (ZeroDivisionError ''float division by zero'')
                 else Inr (a / b))"

definition apply_lowpass_filter ::
  "butter_filtfilt \<Rightarrow> waveform \<Rightarrow> real \<Rightarrow> real \<Rightarrow> nat \<Rightarrow> error + waveform" where
  "apply_lowpass_filter scipy w sample_rate cutoff_freq order =
     (let nyquist = sample_rate / 2
      in case py_div cutoff_freq nyquist of
           Inl e \<Rightarrow> Inl e
         | Inr normalized_cutoff \<Rightarrow>
             if normalized_cutoff \<ge> 1 then Inr w
             else scipy order [normalized_cutoff] Low w)"

definition apply_highpass_filter ::
  "butter_filtfilt \<Rightarrow> waveform \<Rightarrow> real \<Rightarrow> real \<Rightarrow> nat \<Rightarrow> error + waveform" where
  "apply_highpass_filter scipy w sample_rate cutoff_freq order =
     (let nyquist = sample_rate / 2
      in case py_div cutoff_freq nyquist of
           Inl e \<Rightarrow> Inl e
         | Inr normalized_cutoff \<Rightarrow>
             if normalized_cutoff \<le> 0 then Inr w
             else scipy order [normalized_cutoff] High w)"

definition apply_bandpass_filter ::
  "butter_filtfilt \<Rightarrow> waveform \<Rightarrow> real \<Rightarrow> real \<Rightarrow> real \<Rightarrow> nat \<Rightarrow> error + waveform" where
  "apply_bandpass_filter scipy w sample_rate low_freq high_freq order =
     (let nyquist = sample_rate / 2
      in case py_div low_freq nyquist of
           Inl e \<Rightarrow> Inl e
         | Inr low0 \<Rightarrow>
             (case py_div high_freq nyquist of
                Inl e \<Rightarrow> Inl e
              | Inr high0 \<Rightarrow>
                  (let low = (if low0 \<le> 0 then 1 / 1000 else low0);
                       high = (if high0 \<ge> 1 then 999 / 1000 else high0)
                   in if low \<ge> high then Inr w
                      else scipy order [low, high] Band w)))"

section \<open>audio\_processing.py: harmonic detection\<close>

text \<open>
  \<open>np.fft.fft\<close> is the discrete Fourier transform
  \<open>X[k] = sum_j x[j] * exp(-2 pi i j k / n)\<close>, computed here exactly; it raises on an
  empty array.
\<close>

definition dft_coeff :: "real list \<Rightarrow> nat \<Rightarrow> complex" where
  "dft_coeff x k =
     (\<Sum>j<length x. of_real (x ! j) * cis (- (2 * pi * real k * real j / real (length x))))"

definition np_fft :: "waveform \<Rightarrow> error + complex list" where
  "np_fft w =
     (if w = [] then Inl (ValueError ''Invalid number of FFT data points (0) specified.'')
      else Inr (map (dft_coeff (map float_of_int16 w)) [0..<length w]))"

text \<open>
  \<open>np.fft.fftfreq(n, d)\<close>: the integers \<open>0, ..., (n-1)//2, -(n//2), ..., -1\<close>, each
  multiplied by \<open>1.0 / (n * d)\<close>.
\<close>

definition fftfreq_index :: "nat \<Rightarrow> nat \<Rightarrow> int" where
  "fftfreq_index n i = (if i < (n - 1) div 2 + 1 then int i else int i - int n)"

definition np_fftfreq :: "nat \<Rightarrow> real \<Rightarrow> real list" where
  "np_fftfreq n d = map (\<lambda>i. of_int (fftfreq_index n i) * (1 / (real n * d))) [0..<n]"

text \<open>Indexing with a boolean mask: \<open>a[mask]\<close>.\<close>

definition mask_select :: "bool list \<Rightarrow> 'a list \<Rightarrow> 'a list" where
  "mask_select keep xs = map snd (filter fst (zip keep xs))"

text \<open>\<open>np.max\<close> of a float64 array.\<close>

fun np_amax :: "real list \<Rightarrow> error + real" where
  "np_amax [] = Inl (ValueError ''zero-size array to reduction operation maximum which has no identity'')"
| "np_amax (x # xs) = Inr (foldl max x xs)"

text \<open>
  \<open>scipy.signal.find_peaks(x, height=h)\<close>. The local maxima are found by one pass over
  the array: a sample greater than its predecessor starts a candidate, the samples
  equal to it are skipped, and the candidate is a peak when the next different sample
  is smaller; the index reported is the middle of the plateau. The first and the last
  sample are never peaks. Of these maxima the ones of height at least \<open>h\<close> are kept.
\<close>

function skip_plateau :: "real list \<Rightarrow> nat \<Rightarrow> nat \<Rightarrow> nat" where
  "skip_plateau x i i_ahead =
     (if i_ahead < length x - 1 \<and> x ! i_ahead = x ! i
      then skip_plateau x i (i_ahead + 1) else i_ahead)"
  by pat_completeness auto
termination
  by (relation "measure (\<lambda>(x, i, i_ahead). length x - i_ahead)") auto

declare skip_plateau.simps [simp del]

function local_maxima_from :: "real list \<Rightarrow> nat \<Rightarrow> nat list" where
  "local_maxima_from x i =
     (if i < length x - 1 then
        (if x ! (i - 1) < x ! i \<and> x ! (skip_plateau x i (i + 1)) < x ! i
         then ((i + (skip_plateau x i (i + 1) - 1)) div 2)
              # local_maxima_from x (skip_plateau x i (i + 1) + 1)
         else local_maxima_from x (i + 1))
      else [])"
  by pat_completeness auto
termination
proof (relation "measure (\<lambda>(x, i). length x - i)")
  show "wf (measure (\<lambda>(x, i). length x - i))" by simp
next
  fix x :: "real list" and i :: nat
  assume "i < length x - 1"
  then show "((x, i + 1), (x, i)) \<in> measure (\<lambda>(x, i). length x - i)" by simp
next
  fix x :: "real list" and i :: nat
  assume a: "i < length x - 1"
  have ge: "a \<le> skip_plateau x i a" for a
  proof (induction x i a rule: skip_plateau.induct)
    case (1 x i i_ahead)
    show ?case
    proof (cases "i_ahead < length x - 1 \<and> x ! i_ahead = x ! i")
      case True
      then have "skip_plateau x i i_ahead = skip_plateau x i (i_ahead + 1)"
        by (subst skip_plateau.simps) simp
      moreover have "i_ahead + 1 \<le> skip_plateau x i (i_ahead + 1)"
        using True by (intro "1.IH") simp_all
      ultimately show ?thesis by simp
    next
      case False
      then have "skip_plateau x i i_ahead = i_ahead"
        by (subst skip_plateau.simps) auto
      then show ?thesis by simp
    qed
  qed
  have "i + 1 \<le> skip_plateau x i (i + 1)" by (rule ge)
  then show "((x, skip_plateau x i (i + 1) + 1), (x, i)) \<in> measure (\<lambda>(x, i). length x - i)"
    using a by simp
qed

declare local_maxima_from.simps [simp del]

definition find_peaks :: "real list \<Rightarrow> real \<Rightarrow> nat list" where
  "find_peaks x height = filter (\<lambda>p. height \<le> x ! p) (local_maxima_from x 1)"

text \<open>
  \<open>np.argsort(a)[::-1]\<close>: the indices of \<open>a\<close> by decreasing value. numpy does not fix the
  order of equal values; the model sorts stably.
\<close>

definition argsort_desc :: "real list \<Rightarrow> nat list" where
  "argsort_desc a = rev (sort_key (\<lambda>i. a ! i) [0..<length a])"

text \<open>float64 division (no exception on a zero divisor) and addition of a constant.\<close>

definition fdivide :: "real \<Rightarrow> real \<Rightarrow> float64" where
  "fdivide a b = (if b \<noteq> 0 then Num (a / b)
                  else if 0 < a then PosInf else if a < 0 then NegInf else NaN)"

fun fadd :: "float64 \<Rightarrow> real \<Rightarrow> float64" where
  "fadd (Num x) c = Num (x + c)"
| "fadd PosInf c = PosInf"
| "fadd NegInf c = NegInf"
| "fadd NaN c = NaN"

record harmonic =
  frequency :: real
  magnitude_db :: float64

text \<open>
  The first half of \<open>detect_harmonics\<close>: the frequencies and magnitudes of the bins of
  positive frequency.
\<close>

definition positive_spectrum :: "waveform \<Rightarrow> real \<Rightarrow> error + real list \<times> real list" where
  "positive_spectrum w sample_rate =
     (case np_fft w of
        Inl e \<Rightarrow> Inl e
      | Inr fft \<Rightarrow>
          (case py_div 1 sample_rate of
             Inl e \<Rightarrow> Inl e
           | Inr d \<Rightarrow>
               (let freqs = np_fftfreq (length fft) d;
                    magnitude = map cmod fft;
                    positive_mask = map (\<lambda>f. 0 < f) freqs
                in Inr (mask_select positive_mask freqs, mask_select positive_mask magnitude))))"

text \<open>The second half: the peaks, sorted by magnitude, and the strongest of them.\<close>

definition top_peaks :: "real list \<Rightarrow> real list \<Rightarrow> nat \<Rightarrow> error + harmonic list" where
  "top_peaks freqs magnitude num_harmonics =
     (case np_amax magnitude of
        Inl e \<Rightarrow> Inl e
      | Inr mx \<Rightarrow>
          (let peaks = find_peaks magnitude (mx * (1 / 100))
           in if length peaks = 0 then Inr []
              else (let peak_magnitudes = map (\<lambda>p. magnitude ! p) peaks;
                        sorted_indices = argsort_desc peak_magnitudes
                    in Inr (map (\<lambda>i. \<lparr>frequency = freqs ! (peaks ! i),
                                       magnitude_db =
                                         fmul 20 (np_log10
                                           (fadd (fdivide (peak_magnitudes ! i) mx)
                                              (1 / 10 ^ 10)))\<rparr>)
                              (take num_harmonics sorted_indices)))))"

definition detect_harmonics :: "waveform \<Rightarrow> real \<Rightarrow> nat \<Rightarrow> error + harmonic list" where
  "detect_harmonics w sample_rate num_harmonics =
     (case positive_spectrum w sample_rate of
        Inl e \<Rightarrow> Inl e
      | Inr (freqs, magnitude) \<Rightarrow> top_peaks freqs magnitude num_harmonics)"

text \<open>
  A waveform of 24 samples, \<open>2 cos(2 pi 4 j / 24) + cos(2 pi 6 j / 24)\<close> for
  \<open>j = 0, ..., 23\<close>: two periods of a twelve-sample pattern.
\<close>

definition two_tone :: waveform where
  "two_tone = [3, 1, - 2, - 2, 0, 1, 1, 1, 0, - 2, - 2, 1,
               3, 1, - 2, - 2, 0, 1, 1, 1, 0, - 2, - 2, 1]"

section \<open>plotly\_viz.py: the six figures\<close>

text \<open>
  A Plotly figure is modelled by its trace (the kind of trace, the arrays it draws and
  its name), its title and the titles of its two axes; colours, grids and ticks are
  left out. The arrays are float64 arrays; the histogram draws the int16 samples.
\<close>

datatype go_trace =
    Scatter "float64 list" "float64 list" string
  | Heatmap "float64 list" "float64 list" "float64 list list"
  | Histogram waveform nat string

record figure =
  fig_trace :: go_trace
  fig_title :: string
  fig_xaxis :: string
  fig_yaxis :: string

text \<open>
  \<open>np.linspace(start, stop, num)\<close> and the slice \<open>a[::step]\<close> for a step of at least 1
  (both call sites compute the step as a quotient that is at least 1).
\<close>

definition np_linspace :: "real \<Rightarrow> real \<Rightarrow> nat \<Rightarrow> real list" where
  "np_linspace start stop num =
     (if num = 1 then [start]
      else map (\<lambda>i. start + real i * ((stop - start) / real (num - 1))) [0..<num])"

definition slice_step :: "nat \<Rightarrow> 'a list \<Rightarrow> 'a list" where
  "slice_step step a = map (\<lambda>i. a ! (i * step)) [0..<(length a + step - 1) div step]"

text \<open>
  float64 addition, and \<open>np.convolve(a, np.ones(m)/m, mode='same')\<close> for \<open>m\<close> at most the
  length of \<open>a\<close>: entry \<open>n\<close> of the result is entry \<open>n + (m - 1) // 2\<close> of the full
  convolution.
\<close>

fun fplus :: "float64 \<Rightarrow> float64 \<Rightarrow> float64" where
  "fplus (Num a) (Num b) = Num (a + b)"
| "fplus NaN b = NaN"
| "fplus a NaN = NaN"
| "fplus PosInf NegInf = NaN"
| "fplus NegInf PosInf = NaN"
| "fplus PosInf b = PosInf"
| "fplus NegInf b = NegInf"
| "fplus (Num a) PosInf = PosInf"
| "fplus (Num a) NegInf = NegInf"

definition convolve_ones_same :: "float64 list \<Rightarrow> nat \<Rightarrow> float64 list" where
  "convolve_ones_same a m =
     map (\<lambda>n. foldl fplus (Num 0)
                (map (\<lambda>k. fmul (1 / real m) (a ! k))
                   [n + (m - 1) div 2 + 1 - m..<min (length a) (n + (m - 1) div 2 + 1)]))
       [0..<length a]"

text \<open>\<open>np.angle(z, deg=True)\<close>: \<open>arctan2(z.imag, z.real)\<close> in degrees.\<close>

definition np_arctan2 :: "real \<Rightarrow> real \<Rightarrow> real" where
  "np_arctan2 y x =
     (if 0 < x then arctan (y / x)
      else if x < 0 then (if 0 \<le> y then arctan (y / x) + pi else arctan (y / x) - pi)
      else if 0 < y then pi / 2 else if y < 0 then - (pi / 2) else 0)"

definition np_angle_deg :: "complex \<Rightarrow> real" where
  "np_angle_deg z = np_arctan2 (Im z) (Re z) * 180 / pi"

text \<open>The level in dB that the spectrum, spectrogram and PSD plots draw.\<close>

definition power_db :: "float64 \<Rightarrow> float64" where
  "power_db p = fmul 10 (np_log10 (fadd p (1 / 10 ^ 10)))"

definition create_waveform_plot :: "waveform \<Rightarrow> real \<Rightarrow> real \<Rightarrow> string \<Rightarrow> error + figure" where
  "create_waveform_plot w sample_rate duration t =
     (let time = np_linspace 0 duration (length w);
          max_points = 50000;
          (time, samples) =
            (if length w > max_points
             then (let step = length w div max_points
                   in (slice_step step time, slice_step step w))
             else (time, w))
      in Inr \<lparr>fig_trace = Scatter (map Num time) (map (\<lambda>s. Num (float_of_int16 s)) samples)
                            ''Amplitude'',
              fig_title = ''<b>'' @ t @ ''</b>'',
              fig_xaxis = ''Time (seconds)'', fig_yaxis = ''Amplitude''\<rparr>)"

text \<open>
  The spectrum plot computes the positive half of the spectrum as \<open>detect_harmonics\<close>
  does and divides by \<open>magnitude.max()\<close>, which raises on an empty array.
\<close>

definition create_frequency_spectrum_plot :: "waveform \<Rightarrow> real \<Rightarrow> string \<Rightarrow> error + figure" where
  "create_frequency_spectrum_plot w sample_rate t =
     (case positive_spectrum w sample_rate of
        Inl e \<Rightarrow> Inl e
      | Inr (freqs, magnitude) \<Rightarrow>
          (case np_amax magnitude of
             Inl e \<Rightarrow> Inl e
           | Inr mx \<Rightarrow>
               (let magnitude_db =
                      map (\<lambda>m. fmul 20 (np_log10 (fadd (fdivide m mx) (1 / 10 ^ 10)))) magnitude;
                    magnitude_db =
                      (if length magnitude_db > 2000
                       then convolve_ones_same magnitude_db (length magnitude_db div 1000)
                       else magnitude_db)
                in Inr \<lparr>fig_trace = Scatter (map Num freqs) magnitude_db ''Level'',
                        fig_title =
                          ''<b>'' @ t @ ''</b><br><span style=\"font-size:12px;color:#888\">''
                            @ ''Frequency Analysis (like Audacity)</span>'',
                        fig_xaxis = ''<b>Frequency (Hz)</b>'',
                        fig_yaxis = ''<b>Level (dB)</b>''\<rparr>)))"

text \<open>
  \<open>scipy.signal.spectrogram\<close> and \<open>scipy.signal.welch\<close>. Both return empty arrays for an
  empty input, before they look at the segment length; on any other input they reject
  a segment length below 1 and an overlap that is not smaller than the segment length
  (\<open>welch\<close> takes half the segment length as overlap). The arrays that scipy computes
  are not modelled: they are a parameter.
\<close>

record scipy_signal =
  spectrogram_values ::
    "waveform \<Rightarrow> real \<Rightarrow> nat \<Rightarrow> nat \<Rightarrow> float64 list \<times> float64 list \<times> float64 list list"
  welch_values :: "waveform \<Rightarrow> real \<Rightarrow> nat \<Rightarrow> float64 list \<times> float64 list"

definition scipy_segments :: "nat \<Rightarrow> nat \<Rightarrow> error + unit" where
  "scipy_segments nperseg noverlap =
     (if nperseg < 1 then Inl (ValueError ''nperseg must be a positive integer'')
      else if noverlap \<ge> nperseg then Inl (ValueError ''noverlap must be less than nperseg.'')
      else Inr ())"

definition signal_spectrogram ::
  "scipy_signal \<Rightarrow> waveform \<Rightarrow> real \<Rightarrow> nat \<Rightarrow> nat
     \<Rightarrow> error + float64 list \<times> float64 list \<times> float64 list list" where
  "signal_spectrogram sp x fs nperseg noverlap =
     (if x = [] then Inr ([], [], [])
      else case scipy_segments nperseg noverlap of
             Inl e \<Rightarrow> Inl e
           | Inr u \<Rightarrow> Inr (spectrogram_values sp x fs nperseg noverlap))"

definition signal_welch ::
  "scipy_signal \<Rightarrow> waveform \<Rightarrow> real \<Rightarrow> nat \<Rightarrow> error + float64 list \<times> float64 list" where
  "signal_welch sp x fs nperseg =
     (if x = [] then Inr ([], [])
      else case scipy_segments nperseg (nperseg div 2) of
             Inl e \<Rightarrow> Inl e
           | Inr u \<Rightarrow> Inr (welch_values sp x fs nperseg))"

definition create_spectrogram_plot ::
  "scipy_signal \<Rightarrow> waveform \<Rightarrow> real \<Rightarrow> string \<Rightarrow> error + figure" where
  "create_spectrogram_plot sp w sample_rate t =
     (let nperseg = min 1024 (length w div 8)
      in case signal_spectrogram sp w sample_rate nperseg (nperseg div 2) of
           Inl e \<Rightarrow> Inl e
         | Inr (frequencies, segment_times, Sxx) \<Rightarrow>
             Inr \<lparr>fig_trace = Heatmap segment_times frequencies (map (map power_db) Sxx),
                  fig_title = ''<b>'' @ t @ ''</b>'',
                  fig_xaxis = ''Time (seconds)'', fig_yaxis = ''Frequency (Hz)''\<rparr>)"

definition create_psd_plot ::
  "scipy_signal \<Rightarrow> waveform \<Rightarrow> real \<Rightarrow> string \<Rightarrow> error + figure" where
  "create_psd_plot sp w sample_rate t =
     (case signal_welch sp w sample_rate (min 1024 (length w div 4)) of
        Inl e \<Rightarrow> Inl e
      | Inr (frequencies, psd) \<Rightarrow>
          Inr \<lparr>fig_trace = Scatter frequencies (map power_db psd) ''PSD'',
               fig_title = ''<b>'' @ t @ ''</b>'',
               fig_xaxis = ''Frequency (Hz)'', fig_yaxis = ''Power/Frequency (dB/Hz)''\<rparr>)"

text \<open>
  The phase plot takes \<open>np.angle\<close> of the same transform, keeps the bins of positive
  frequency and draws at most about 5000 of them.
\<close>

definition create_phase_plot :: "waveform \<Rightarrow> real \<Rightarrow> string \<Rightarrow> error + figure" where
  "create_phase_plot w sample_rate t =
     (case np_fft w of
        Inl e \<Rightarrow> Inl e
      | Inr fft \<Rightarrow>
          (case py_div 1 sample_rate of
             Inl e \<Rightarrow> Inl e
           | Inr d \<Rightarrow>
               (let freqs = np_fftfreq (length fft) d;
                    phase = map np_angle_deg fft;
                    positive_mask = map (\<lambda>f. 0 < f) freqs;
                    freqs = mask_select positive_mask freqs;
                    phase = mask_select positive_mask phase;
                    (freqs, phase) =
                      (if length freqs > 5000
                       then (let step = length freqs div 5000
                             in (slice_step step freqs, slice_step step phase))
                       else (freqs, phase))
                in Inr \<lparr>fig_trace = Scatter (map Num freqs) (map Num phase) ''Phase'',
                        fig_title = ''<b>'' @ t @ ''</b>'',
                        fig_xaxis = ''Frequency (Hz)'', fig_yaxis = ''Phase (degrees)''\<rparr>)))"

definition create_histogram_plot :: "waveform \<Rightarrow> string \<Rightarrow> error + figure" where
  "create_histogram_plot w t =
     Inr \<lparr>fig_trace = Histogram w 100 ''Distribution'',
          fig_title = ''<b>'' @ t @ ''</b>'',
          fig_xaxis = ''Amplitude'', fig_yaxis = ''Count''\<rparr>"

text \<open>
  The dictionary literal of \<open>create_all_visualizations\<close>: its entries are evaluated in
  source order, and the first exception leaves the function.
\<close>

definition create_all_visualizations ::
  "scipy_signal \<Rightarrow> waveform \<Rightarrow> real \<Rightarrow> real \<Rightarrow> string \<Rightarrow> error + (string \<times> figure) list" where
  "create_all_visualizations sp w sample_rate duration filename =
     (case create_waveform_plot w sample_rate duration (''Waveform - '' @ filename) of
        Inl e \<Rightarrow> Inl e
      | Inr f1 \<Rightarrow>
     (case create_frequency_spectrum_plot w sample_rate (''Frequency Spectrum - '' @ filename) of
        Inl e \<Rightarrow> Inl e
      | Inr f2 \<Rightarrow>
     (case create_spectrogram_plot sp w sample_rate (''Spectrogram - '' @ filename) of
        Inl e \<Rightarrow> Inl e
      | Inr f3 \<Rightarrow>
     (case create_psd_plot sp w sample_rate (''Power Spectral Density - '' @ filename) of
        Inl e \<Rightarrow> Inl e
      | Inr f4 \<Rightarrow>
     (case create_phase_plot w sample_rate (''Phase Response - '' @ filename) of
        Inl e \<Rightarrow> Inl e
      | Inr f5 \<Rightarrow>
     (case create_histogram_plot w (''Amplitude Distribution - '' @ filename) of
        Inl e \<Rightarrow> Inl e
      | Inr f6 \<Rightarrow>
          Inr [(''waveform'', f1), (''spectrum'', f2), (''spectrogram'', f3),
               (''psd'', f4), (''phase'', f5), (''histogram'', f6)]))))))"

section \<open>Arrays as objects\<close>

text \<open>
  In Python a waveform is a mutable array object, and a function receives a reference
  to it. To state what the analysis functions do to the arrays that exist when they are
  called, the functions are written once more as programs on a heap: the heap holds the
  arrays of each dtype, a reference is an index into it, and each numpy call that
  returns a new array allocates one. An exception leaves the function with the heap as
  it is at that point.
\<close>

record heap =
  int16_arrays :: "waveform list"
  float64_arrays :: "real list list"
  complex128_arrays :: "complex list list"
  bool_arrays :: "bool list list"
  intp_arrays :: "nat list list"

type_synonym 'a heap_prog = "heap \<Rightarrow> (error + 'a) \<times> heap"

definition hp_return :: "'a \<Rightarrow> 'a heap_prog" where
  "hp_return x = (\<lambda>h. (Inr x, h))"

definition hp_bind :: "'a heap_prog \<Rightarrow> ('a \<Rightarrow> 'b heap_prog) \<Rightarrow> 'b heap_prog" where
  "hp_bind m f = (\<lambda>h. case m h of
                         (Inl e, h') \<Rightarrow> (Inl e, h')
                       | (Inr x, h') \<Rightarrow> f x h')"

definition new_int16 :: "waveform \<Rightarrow> nat heap_prog" where
  "new_int16 v = (\<lambda>h. (Inr (length (int16_arrays h)),
                        h\<lparr>int16_arrays := int16_arrays h @ [v]\<rparr>))"

definition new_float64 :: "real list \<Rightarrow> nat heap_prog" where
  "new_float64 v = (\<lambda>h. (Inr (length (float64_arrays h)),
                          h\<lparr>float64_arrays := float64_arrays h @ [v]\<rparr>))"

definition new_complex128 :: "complex list \<Rightarrow> nat heap_prog" where
  "new_complex128 v = (\<lambda>h. (Inr (length (complex128_arrays h)),
                             h\<lparr>complex128_arrays := complex128_arrays h @ [v]\<rparr>))"

definition new_bool :: "bool list \<Rightarrow> nat heap_prog" where
  "new_bool v = (\<lambda>h. (Inr (length (bool_arrays h)),
                       h\<lparr>bool_arrays := bool_arrays h @ [v]\<rparr>))"

definition new_intp :: "nat list \<Rightarrow> nat heap_prog" where
  "new_intp v = (\<lambda>h. (Inr (length (intp_arrays h)),
                       h\<lparr>intp_arrays := intp_arrays h @ [v]\<rparr>))"

subsection \<open>The numpy calls of the level metrics\<close>

definition np_abs_at :: "nat \<Rightarrow> nat heap_prog" where
  "np_abs_at a = (\<lambda>h. new_int16 (np_abs (int16_arrays h ! a)) h)"

definition np_square_at :: "nat \<Rightarrow> nat heap_prog" where
  "np_square_at a = (\<lambda>h. new_int16 (np_square (int16_arrays h ! a)) h)"

definition np_max_at :: "nat \<Rightarrow> int16 heap_prog" where
  "np_max_at a = (\<lambda>h. (np_max (int16_arrays h ! a), h))"

definition np_min_at :: "nat \<Rightarrow> int16 heap_prog" where
  "np_min_at a = (\<lambda>h. (np_min (int16_arrays h ! a), h))"

definition np_mean_at :: "nat \<Rightarrow> float64 heap_prog" where
  "np_mean_at a = (\<lambda>h. (Inr (np_mean (int16_arrays h ! a)), h))"

text \<open>\<open>waveform != 0\<close> and \<open>waveform[mask]\<close>.\<close>

definition not_equal_zero_at :: "nat \<Rightarrow> nat heap_prog" where
  "not_equal_zero_at a = (\<lambda>h. new_bool (map (\<lambda>x. x \<noteq> 0) (int16_arrays h ! a)) h)"

definition index_mask_at :: "nat \<Rightarrow> nat \<Rightarrow> nat heap_prog" where
  "index_mask_at a m =
     (\<lambda>h. new_int16 (mask_select (bool_arrays h ! m) (int16_arrays h ! a)) h)"

subsection \<open>tools.py and analyzer.py on the heap\<close>

definition wave_to_db_at :: "nat \<Rightarrow> float64 heap_prog" where
  "wave_to_db_at waveform_ref =
     hp_bind (np_square_at waveform_ref) (\<lambda>sq_amplitude.
     hp_bind (np_mean_at sq_amplitude) (\<lambda>mean_squared_amplitude.
     hp_return (fmul 10 (np_log10 (fdiv mean_squared_amplitude ref_level)))))"

definition wave_to_db_rms_at :: "nat \<Rightarrow> float64 heap_prog" where
  "wave_to_db_rms_at waveform_ref =
     hp_bind (np_square_at waveform_ref) (\<lambda>squares.
     hp_bind (np_mean_at squares) (\<lambda>sq_amplitude.
     hp_return (fmul 20 (np_log10 (fdiv (np_sqrt sq_amplitude) ref_level)))))"

definition detect_db_range_at :: "nat \<Rightarrow> db_levels heap_prog" where
  "detect_db_range_at waveform_ref =
     hp_bind (np_abs_at waveform_ref) (\<lambda>magnitudes.
     hp_bind (np_max_at magnitudes) (\<lambda>max_amplitude.
     hp_bind (not_equal_zero_at waveform_ref) (\<lambda>keep.
     hp_bind (index_mask_at waveform_ref keep) (\<lambda>selected.
     hp_bind (np_abs_at selected) (\<lambda>magnitudes'.
     hp_bind (np_min_at magnitudes') (\<lambda>min_amplitude.
     hp_return
       (let mx = amplitude_db max_amplitude;
            mn = amplitude_db min_amplitude;
            dr = (if mn \<noteq> NegInf then fsub mx mn else Num 0)
        in \<lparr>max_db = mx, min_db = mn, dynamic_range = dr\<rparr>)))))))"

definition analyze_audio_levels_at :: "nat \<Rightarrow> audio_levels heap_prog" where
  "analyze_audio_levels_at waveform_ref =
     hp_bind (np_abs_at waveform_ref) (\<lambda>t1.
     hp_bind (np_max_at t1) (\<lambda>mx.
     hp_bind (np_abs_at waveform_ref) (\<lambda>t2.
     hp_bind (np_min_at t2) (\<lambda>mn.
     hp_bind (np_abs_at waveform_ref) (\<lambda>t3.
     hp_bind (np_mean_at t3) (\<lambda>mean.
     hp_bind (wave_to_db_at waveform_ref) (\<lambda>avg.
     hp_bind (wave_to_db_rms_at waveform_ref) (\<lambda>rms.
     hp_bind (detect_db_range_at waveform_ref) (\<lambda>r.
     hp_return \<lparr>max_amplitude = mx, min_amplitude = mn, mean_amplitude = mean,
                avg_db = avg, rms_db = rms, db_range = r\<rparr>)))))))))"

subsection \<open>detect\_harmonics on the heap\<close>

definition np_fft_at :: "nat \<Rightarrow> nat heap_prog" where
  "np_fft_at a =
     (\<lambda>h. case np_fft (int16_arrays h ! a) of
             Inl e \<Rightarrow> (Inl e, h)
           | Inr spectrum \<Rightarrow> new_complex128 spectrum h)"

definition len_complex_at :: "nat \<Rightarrow> nat heap_prog" where
  "len_complex_at a = (\<lambda>h. (Inr (length (complex128_arrays h ! a)), h))"

definition np_abs_complex_at :: "nat \<Rightarrow> nat heap_prog" where
  "np_abs_complex_at a = (\<lambda>h. new_float64 (map cmod (complex128_arrays h ! a)) h)"

definition greater_zero_at :: "nat \<Rightarrow> nat heap_prog" where
  "greater_zero_at a = (\<lambda>h. new_bool (map (\<lambda>f. 0 < f) (float64_arrays h ! a)) h)"

definition index_mask_float_at :: "nat \<Rightarrow> nat \<Rightarrow> nat heap_prog" where
  "index_mask_float_at a m =
     (\<lambda>h. new_float64 (mask_select (bool_arrays h ! m) (float64_arrays h ! a)) h)"

definition np_amax_at :: "nat \<Rightarrow> real heap_prog" where
  "np_amax_at a = (\<lambda>h. (np_amax (float64_arrays h ! a), h))"

definition find_peaks_at :: "nat \<Rightarrow> real \<Rightarrow> nat heap_prog" where
  "find_peaks_at a height = (\<lambda>h. new_intp (find_peaks (float64_arrays h ! a) height) h)"

definition len_intp_at :: "nat \<Rightarrow> nat heap_prog" where
  "len_intp_at a = (\<lambda>h. (Inr (length (intp_arrays h ! a)), h))"

text \<open>\<open>magnitude[peaks]\<close> and \<open>np.argsort(a)[::-1]\<close>.\<close>

definition index_intp_at :: "nat \<Rightarrow> nat \<Rightarrow> nat heap_prog" where
  "index_intp_at a ps =
     (\<lambda>h. new_float64 (map (\<lambda>p. float64_arrays h ! a ! p) (intp_arrays h ! ps)) h)"

definition argsort_desc_at :: "nat \<Rightarrow> nat heap_prog" where
  "argsort_desc_at a = (\<lambda>h. new_intp (argsort_desc (float64_arrays h ! a)) h)"

text \<open>
  The loop \<open>for i in sorted_indices[:num_harmonics]\<close>: it reads the arrays and appends
  to the local list \<open>harmonics\<close>.
\<close>

definition collect_harmonics_at ::
  "nat \<Rightarrow> nat \<Rightarrow> nat \<Rightarrow> nat \<Rightarrow> real \<Rightarrow> nat \<Rightarrow> harmonic list heap_prog" where
  "collect_harmonics_at freqs peaks peak_magnitudes sorted_indices mx num_harmonics =
     (\<lambda>h. (Inr (map (\<lambda>i. \<lparr>frequency = float64_arrays h ! freqs ! (intp_arrays h ! peaks ! i),
                             magnitude_db =
                               fmul 20 (np_log10
                                 (fadd (fdivide (float64_arrays h ! peak_magnitudes ! i) mx)
                                    (1 / 10 ^ 10)))\<rparr>)
                    (take num_harmonics (intp_arrays h ! sorted_indices))), h))"

definition detect_harmonics_at :: "nat \<Rightarrow> real \<Rightarrow> nat \<Rightarrow> harmonic list heap_prog" where
  "detect_harmonics_at waveform_ref sample_rate num_harmonics =
     hp_bind (np_fft_at waveform_ref) (\<lambda>fft.
     hp_bind (len_complex_at fft) (\<lambda>n.
     hp_bind (\<lambda>h. (py_div 1 sample_rate, h)) (\<lambda>d.
     hp_bind (new_float64 (np_fftfreq n d)) (\<lambda>freqs0.
     hp_bind (np_abs_complex_at fft) (\<lambda>magnitude0.
     hp_bind (greater_zero_at freqs0) (\<lambda>positive_mask.
     hp_bind (index_mask_float_at freqs0 positive_mask) (\<lambda>freqs.
     hp_bind (index_mask_float_at magnitude0 positive_mask) (\<lambda>magnitude.
     hp_bind (np_amax_at magnitude) (\<lambda>mx.
     hp_bind (find_peaks_at magnitude (mx * (1 / 100))) (\<lambda>peaks.
     hp_bind (len_intp_at peaks) (\<lambda>npeaks.
       if npeaks = 0 then hp_return []
       else
         hp_bind (index_intp_at magnitude peaks) (\<lambda>peak_magnitudes.
         hp_bind (argsort_desc_at peak_magnitudes) (\<lambda>sorted_indices.
         collect_harmonics_at freqs peaks peak_magnitudes sorted_indices mx
           num_harmonics)))))))))))))"

text \<open>Every array of the first heap is still there, unchanged, in the second.\<close>

definition heap_extends :: "heap \<Rightarrow> heap \<Rightarrow> bool" where
  "heap_extends h h' \<longleftrightarrow>
     prefix (int16_arrays h) (int16_arrays h')
   \<and> prefix (float64_arrays h) (float64_arrays h')
   \<and> prefix (complex128_arrays h) (complex128_arrays h')
   \<and> prefix (bool_arrays h) (bool_arrays h')
   \<and> prefix (intp_arrays h) (intp_arrays h')"

text \<open>A heap with two array objects of equal content.\<close>

definition twin_heap :: heap where
  "twin_heap = \<lparr>int16_arrays = [two_tone, two_tone], float64_arrays = [],
                complex128_arrays = [], bool_arrays = [], intp_arrays = []\<rparr>"

section \<open>analyzer.py: the complete analysis\<close>

text \<open>
  \<open>perform_complete_analysis\<close> prints, creates a directory and drives matplotlib. The
  model records these effects, and the calls of the analysis functions, as a trace of
  events in program order. The outcome of the calls that leave the program is given by
  the environment: \<open>print\<close> (which raises when \<open>sys.stdout\<close> is closed or cannot encode
  the emoji that every message of these functions contains; the environment says for
  each message whether printing it raises), \<open>os.makedirs\<close>, the
  matplotlib calls of \<open>visualization.py\<close> (drawing and saving a figure, then
  \<open>plt.show\<close>), \<open>os.path.exists\<close> and \<open>os.unlink\<close>. The consecutive prints of the
  results are one message, \<open>Print_results\<close>; the payload of \<open>Print_error\<close> is the message
  of the exception that the handler reports.
\<close>

datatype event =
    Read_info string
  | Load_samples string
  | Compute_levels waveform
  | Detect_harmonics waveform nat
  | Create_visualizations waveform nat real string
  | Print_results string wave_info real audio_levels
  | Print_generating
  | Makedirs string
  | Plot_waveform waveform nat real string "string option"
  | Plot_spectrogram waveform nat string "string option"
  | Print_saved string
  | Print_completed
  | Print_error string
  | Unlink string

record env =
  files :: filesystem
  stdout_error :: "event \<Rightarrow> error option"
  makedirs_error :: "error option"
  plot_waveform_error :: "error option"
  plot_spectrogram_error :: "error option"
  show_error :: "error option"
  path_exists :: "string \<Rightarrow> bool"
  unlink_error :: "error option"

type_synonym 'a io = "event list \<Rightarrow> (error + 'a) \<times> event list"

definition io_return :: "'a \<Rightarrow> 'a io" where
  "io_return x = (\<lambda>out. (Inr x, out))"

definition io_bind :: "'a io \<Rightarrow> ('a \<Rightarrow> 'b io) \<Rightarrow> 'b io" where
  "io_bind m f = (\<lambda>out. case m out of
                           (Inl e, out') \<Rightarrow> (Inl e, out')
                         | (Inr x, out') \<Rightarrow> f x out')"

text \<open>An entry of the trace: the call of a function of the program.\<close>

definition emit :: "event \<Rightarrow> unit io" where
  "emit ev = (\<lambda>out. (Inr (), out @ [ev]))"

text \<open>A call that returns or raises without any effect of its own.\<close>

definition io_of :: "error + 'a \<Rightarrow> 'a io" where
  "io_of r = (\<lambda>out. (r, out))"

text \<open>An external call that completes or raises, as the environment decides.\<close>

definition external :: "error option \<Rightarrow> unit io" where
  "external outcome = (case outcome of None \<Rightarrow> io_return () | Some e \<Rightarrow> io_of (Inl e))"

text \<open>\<open>print\<close>: the message reaches the output unless writing to \<open>sys.stdout\<close> raises.\<close>

definition py_print :: "env \<Rightarrow> event \<Rightarrow> unit io" where
  "py_print ev message = io_bind (external (stdout_error ev message)) (\<lambda>_. emit message)"






record analysis =
  file_info :: wave_info
  wave_data :: wave_data
  audio_levels :: audio_levels




section \<open>streamlit\_app.py: the analysis of the dashboard\<close>

text \<open>
  \<open>analyze_audio\<close> after the uploaded file has been written to a temporary WAV file
  (\<open>convert_audio_to_wav\<close> is not modelled: its outcome, the path or an exception, is an
  argument). On an exception the handler removes the temporary file and raises the
  exception again.
\<close>

record dashboard_results =
  res_file_info :: wave_info
  res_audio_levels :: audio_levels
  res_figures :: "(string \<times> figure) list"
  res_waveform :: waveform
  res_sample_rate :: nat
  res_duration :: real
  res_harmonics :: "harmonic list"
  res_wav_path :: string

definition analyze_audio_body ::
  "env \<Rightarrow> scipy_signal \<Rightarrow> string \<Rightarrow> string \<Rightarrow> dashboard_results io" where
  "analyze_audio_body ev sp tmp_path name =
     io_bind (emit (Read_info tmp_path)) (\<lambda>_.
     io_bind (io_of (get_wave_info (files ev) tmp_path)) (\<lambda>file_info.
     io_bind (emit (Load_samples tmp_path)) (\<lambda>_.
     io_bind (io_of (load_wave_data (files ev) tmp_path)) (\<lambda>wave_data.
     io_bind (emit (Compute_levels (wd_waveform wave_data))) (\<lambda>_.
     io_bind (io_of (analyze_audio_levels (wd_waveform wave_data))) (\<lambda>audio_levels.
     io_bind (emit (Detect_harmonics (wd_waveform wave_data) (wd_sample_rate wave_data))) (\<lambda>_.
     io_bind (io_of (detect_harmonics (wd_waveform wave_data)
                       (real (wd_sample_rate wave_data)) 10)) (\<lambda>harmonics.
     io_bind (emit (Create_visualizations (wd_waveform wave_data) (wd_sample_rate wave_data)
                      (wd_duration wave_data) name)) (\<lambda>_.
     io_bind (io_of (create_all_visualizations sp (wd_waveform wave_data)
                       (real (wd_sample_rate wave_data)) (wd_duration wave_data) name)) (\<lambda>figures.
     io_return \<lparr>res_file_info = file_info, res_audio_levels = audio_levels,
                res_figures = figures, res_waveform = wd_waveform wave_data,
                res_sample_rate = wd_sample_rate wave_data,
                res_duration = wd_duration wave_data, res_harmonics = harmonics,
                res_wav_path = tmp_path\<rparr>))))))))))"

definition analyze_audio ::
  "env \<Rightarrow> scipy_signal \<Rightarrow> error + string \<Rightarrow> string \<Rightarrow> dashboard_results io" where
  "analyze_audio ev sp converted name =
     io_bind (io_of converted) (\<lambda>tmp_path. (\<lambda>out.
       case analyze_audio_body ev sp tmp_path name out of
         (Inr r, out') \<Rightarrow> (Inr r, out')
       | (Inl e, out') \<Rightarrow>
           io_bind (if path_exists ev tmp_path
                    then io_bind (emit (Unlink tmp_path)) (\<lambda>_. external (unlink_error ev))
                    else io_return ()) (\<lambda>_. io_of (Inl e)) out'))"

section \<open>The pipeline of the specification\<close>

text \<open>
  The stages of the pipeline that the specification names, and the stage that a call
  recorded in the trace belongs to. The filters of \<open>audio_processing.py\<close> are called by
  no function of the program, so no event belongs to the stage \<open>Filter\<close>.
\<close>

datatype stage = Load | Metrics | Harmonics | Filter | Plot

fun stage_of :: "event \<Rightarrow> stage option" where
  "stage_of (Read_info p) = Some Load"
| "stage_of (Load_samples p) = Some Load"
| "stage_of (Compute_levels w) = Some Metrics"
| "stage_of (Detect_harmonics w r) = Some Harmonics"
| "stage_of (Create_visualizations w r d n) = Some Plot"
| "stage_of (Plot_waveform w r d t p) = Some Plot"
| "stage_of (Plot_spectrogram w r t p) = Some Plot"
| "stage_of ev = None"

definition stages :: "event list \<Rightarrow> stage list" where
  "stages out = List.map_filter stage_of out"




section \<open>Decibel levels\<close>

lemma ref_level_pos: "0 < ref_level"
  by (simp add: ref_level_def)

lemma log10_million: "log 10 1000000 = 6"
proof -
  have "log 10 ((10::real) ^ 6) = real 6 * log 10 10"
    by (rule log_nat_power) simp
  then show ?thesis by simp
qed

lemma log10_ref_level: "0 < x \<Longrightarrow> log 10 (x / ref_level) = log 10 x + 6"
proof -
  assume x: "0 < x"
  have "x / ref_level = x * 1000000" by (simp add: ref_level_def)
  moreover have "log 10 (x * 1000000) = log 10 x + log 10 1000000"
    using x by (simp add: log_mult)
  ultimately show ?thesis by (simp add: log10_million)
qed

text \<open>
  Claim C3, as stated: for every waveform with positive mean squared amplitude,
  \<open>wave_to_db\<close> and \<open>wave_to_db_rms\<close> return the same level. The one-sample waveform
  \<open>[1]\<close> has mean squared amplitude 1 and the two functions return 60 and 120.
\<close>

theorem wave_to_db_rms_differs:
  "np_mean (np_square [1]) = Num 1 \<and> wave_to_db [1] = Num 60 \<and> wave_to_db_rms [1] = Num 120
   \<and> wave_to_db [1] \<noteq> wave_to_db_rms [1]"
  using log10_ref_level [of 1] ref_level_pos
  by (simp add: wave_to_db_def wave_to_db_rms_def np_mean_def np_square_def float_of_int16_def)

text \<open>
  Claim C3, amended: for every waveform whose mean squared amplitude \<open>m\<close> (as the code
  computes it, from the int16 squares) is positive, \<open>wave_to_db\<close> returns
  \<open>10 * log10 m + 60\<close> and \<open>wave_to_db_rms\<close> returns that level plus 60 dB: the first
  divides the mean square by \<open>1e-6\<close>, the second divides its square root by \<open>1e-6\<close>.
\<close>

theorem wave_to_db_rms_offset:
  assumes "np_mean (np_square w) = Num m" and "0 < m"
  shows "wave_to_db w = Num (10 * log 10 m + 60)
         \<and> wave_to_db_rms w = Num (10 * log 10 m + 60 + 60)"
proof -
  have s: "0 < sqrt m" using assms(2) by simp
  have "log 10 (sqrt m) = log 10 m / 2"
    using assms(2) by (simp add: log_def ln_sqrt)
  then have "20 * log 10 (sqrt m / ref_level) = 10 * log 10 m + 120"
    using log10_ref_level [OF s] by simp
  moreover have "10 * log 10 (m / ref_level) = 10 * log 10 m + 60"
    using log10_ref_level [OF assms(2)] by simp
  ultimately show ?thesis
    using assms s ref_level_pos by (simp add: wave_to_db_def wave_to_db_rms_def)
qed

theorem wave_to_db_rms_offset_witness:
  "np_mean (np_square [3, 4]) = Num (25 / 2) \<and> (0::real) < 25 / 2
   \<and> wave_to_db [3, 4] = Num (10 * log 10 (25 / 2) + 60)
   \<and> wave_to_db_rms [3, 4] = Num (10 * log 10 (25 / 2) + 60 + 60)"
proof -
  have m: "np_mean (np_square [3, 4]) = Num (25 / 2)"
    by (simp add: np_mean_def np_square_def float_of_int16_def)
  have p: "(0::real) < 25 / 2" by simp
  show ?thesis using m p wave_to_db_rms_offset [OF m p] by simp
qed

section \<open>Signed 16-bit arithmetic\<close>

lemma sint16_range: "- 32768 \<le> sint (x::int16) \<and> sint x \<le> 32767"
  using sint_ge [of x] sint_lt [of x] by simp

lemma sint_abs16: "sint x \<noteq> - 32768 \<Longrightarrow> sint (abs16 x) = \<bar>sint x\<bar>"
proof -
  assume h: "sint x \<noteq> - 32768"
  have r: "- 32768 \<le> sint x \<and> sint x \<le> 32767" by (rule sint16_range)
  have "sint (- x) = signed_take_bit 15 (- sint x)"
    by (simp add: sint_word_ariths)
  also have "\<dots> = - sint x"
    using h r by (intro signed_take_bit_int_eq_self) auto
  finally show ?thesis by (simp add: abs16_def)
qed

lemma sint_abs16_min: "sint x = - 32768 \<Longrightarrow> sint (abs16 x) = - 32768"
proof -
  assume h: "sint x = - 32768"
  have "sint (- 32768 :: int16) = - 32768" by simp
  with h have "x = - 32768" by (simp add: word_eq_iff_signed [where ?'a = int])
  then show ?thesis by (simp add: abs16_def)
qed

lemma foldl_max16_mem: "foldl max16 x xs \<in> set (x # xs)"
  by (induction xs arbitrary: x) (auto simp: max16_def)

lemma foldl_min16_mem: "foldl min16 x xs \<in> set (x # xs)"
  by (induction xs arbitrary: x) (auto simp: min16_def)

lemma foldl_max16_init: "sint x \<le> sint (foldl max16 x xs)"
proof (induction xs arbitrary: x)
  case Nil
  show ?case by simp
next
  case (Cons a xs)
  have "sint x \<le> sint (max16 x a)" by (simp add: max16_def)
  also have "\<dots> \<le> sint (foldl max16 (max16 x a) xs)" by (rule Cons.IH)
  finally show ?case by simp
qed

lemma foldl_max16_ge: "y \<in> set (x # xs) \<Longrightarrow> sint y \<le> sint (foldl max16 x xs)"
proof (induction xs arbitrary: x)
  case Nil
  then show ?case by simp
next
  case (Cons a xs)
  have m: "sint x \<le> sint (max16 x a) \<and> sint a \<le> sint (max16 x a)"
    by (simp add: max16_def)
  from Cons.prems consider "y = x" | "y = a" | "y \<in> set xs" by auto
  then show ?case
  proof cases
    case 1
    then show ?thesis using m foldl_max16_init [of "max16 x a" xs] by simp
  next
    case 2
    then show ?thesis using m foldl_max16_init [of "max16 x a" xs] by simp
  next
    case 3
    then show ?thesis using Cons.IH [of "max16 x a"] by simp
  qed
qed

lemma foldl_min16_init: "sint (foldl min16 x xs) \<le> sint x"
proof (induction xs arbitrary: x)
  case Nil
  show ?case by simp
next
  case (Cons a xs)
  have "sint (foldl min16 (min16 x a) xs) \<le> sint (min16 x a)" by (rule Cons.IH)
  also have "\<dots> \<le> sint x" by (simp add: min16_def)
  finally show ?case by simp
qed

lemma foldl_min16_le: "y \<in> set (x # xs) \<Longrightarrow> sint (foldl min16 x xs) \<le> sint y"
proof (induction xs arbitrary: x)
  case Nil
  then show ?case by simp
next
  case (Cons a xs)
  have m: "sint (min16 x a) \<le> sint x \<and> sint (min16 x a) \<le> sint a"
    by (simp add: min16_def)
  from Cons.prems consider "y = x" | "y = a" | "y \<in> set xs" by auto
  then show ?case
  proof cases
    case 1
    then show ?thesis using m foldl_min16_init [of "min16 x a" xs] by simp
  next
    case 2
    then show ?thesis using m foldl_min16_init [of "min16 x a" xs] by simp
  next
    case 3
    then show ?thesis using Cons.IH [of "min16 x a"] by simp
  qed
qed

lemma np_max_cases:
  "w \<noteq> [] \<Longrightarrow> \<exists>m. np_max w = Inr m \<and> m \<in> set w \<and> (\<forall>y\<in>set w. sint y \<le> sint m)"
  by (cases w) (auto simp: foldl_max16_mem foldl_max16_ge simp del: foldl_Cons set_simps)

lemma np_min_cases:
  "w \<noteq> [] \<Longrightarrow> \<exists>m. np_min w = Inr m \<and> m \<in> set w \<and> (\<forall>y\<in>set w. sint m \<le> sint y)"
  by (cases w) (auto simp: foldl_min16_mem foldl_min16_le simp del: foldl_Cons set_simps)

lemma sint_eq_0_iff: "sint (x::int16) = 0 \<longleftrightarrow> x = 0"
  using word_eq_iff_signed [where ?'a = int, of x 0] by simp

lemma float_of_int16_pos: "0 < float_of_int16 a \<longleftrightarrow> 0 < sint a"
  unfolding float_of_int16_def by (rule of_int_0_less_iff)

lemma float_of_int16_le: "float_of_int16 a \<le> float_of_int16 b \<longleftrightarrow> sint a \<le> sint b"
  unfolding float_of_int16_def by (rule of_int_le_iff)

lemma float_of_int16_abs: "\<bar>float_of_int16 a\<bar> = real_of_int \<bar>sint a\<bar>"
  unfolding float_of_int16_def by (rule of_int_abs [symmetric])

lemma amplitude_db_pos:
  "0 < sint a \<Longrightarrow> amplitude_db a = Num (20 * log 10 (float_of_int16 a / ref_level))"
  using ref_level_pos by (simp add: amplitude_db_def float_of_int16_pos)

lemma amplitude_db_mono:
  assumes "0 < sint a" and "sint a \<le> sint b"
  shows "20 * log 10 (float_of_int16 a / ref_level)
         \<le> 20 * log 10 (float_of_int16 b / ref_level)"
proof -
  have "0 < float_of_int16 a / ref_level"
    using assms(1) ref_level_pos by (simp add: float_of_int16_pos)
  moreover have "float_of_int16 a / ref_level \<le> float_of_int16 b / ref_level"
    using assms(2) ref_level_pos by (simp add: divide_right_mono float_of_int16_le)
  ultimately show ?thesis by simp
qed

section \<open>Dynamic range\<close>

text \<open>
  The first half of claim C8 holds: on an empty waveform \<open>np.max\<close> raises, and on a
  waveform of zeros the minimum over the empty array of nonzero samples raises.
\<close>

lemma detect_db_range_empty:
  "detect_db_range [] =
     Inl (ValueError ''zero-size array to reduction operation maximum which has no identity'')"
  by (simp add: detect_db_range_def np_abs_def)

lemma detect_db_range_all_zero:
  assumes "w \<noteq> []" and "\<forall>x\<in>set w. x = 0"
  shows "detect_db_range w =
     Inl (ValueError ''zero-size array to reduction operation minimum which has no identity'')"
proof -
  obtain m where "np_max (np_abs w) = Inr m"
    using np_max_cases [of "np_abs w"] assms(1) by (auto simp: np_abs_def)
  moreover have "nonzero w = []"
    using assms(2) by (simp add: nonzero_def filter_empty_conv)
  ultimately show ?thesis by (simp add: detect_db_range_def np_abs_def)
qed

lemma detect_db_range_nonzero:
  assumes nz: "\<exists>x\<in>set w. x \<noteq> 0" and nm: "\<forall>x\<in>set w. x \<noteq> - 32768"
  shows "\<exists>a b. detect_db_range w =
            Inr \<lparr>max_db = Num a, min_db = Num b, dynamic_range = Num (a - b)\<rparr> \<and> 0 \<le> a - b"
proof -
  have ne: "np_abs w \<noteq> []" using nz by (auto simp: np_abs_def)
  obtain mx where mx: "np_max (np_abs w) = Inr mx"
      and mx_ge: "\<forall>y\<in>set (np_abs w). sint y \<le> sint mx"
    using np_max_cases [OF ne] by blast
  have ne': "np_abs (nonzero w) \<noteq> []"
    using nz by (auto simp: np_abs_def nonzero_def filter_empty_conv)
  obtain mn where mn: "np_min (np_abs (nonzero w)) = Inr mn"
      and mn_mem: "mn \<in> set (np_abs (nonzero w))"
    using np_min_cases [OF ne'] by blast
  from mn_mem obtain x where x: "x \<in> set w" "x \<noteq> 0" "mn = abs16 x"
    by (auto simp: np_abs_def nonzero_def)
  have "sint x \<noteq> - 32768"
  proof
    assume "sint x = - 32768"
    moreover have "sint (- 32768 :: int16) = - 32768" by simp
    ultimately have "x = - 32768" by (simp add: word_eq_iff_signed [where ?'a = int])
    with nm x(1) show False by blast
  qed
  then have "sint mn = \<bar>sint x\<bar>" using x(3) by (simp add: sint_abs16)
  moreover have "sint x \<noteq> 0" using x(2) by (simp add: sint_eq_0_iff)
  ultimately have mn_pos: "0 < sint mn" by simp
  have "mn \<in> set (np_abs w)" using x by (auto simp: np_abs_def)
  then have le: "sint mn \<le> sint mx" using mx_ge by blast
  then have mx_pos: "0 < sint mx" using mn_pos by simp
  let ?a = "20 * log 10 (float_of_int16 mx / ref_level)"
  let ?b = "20 * log 10 (float_of_int16 mn / ref_level)"
  have "detect_db_range w = Inr \<lparr>max_db = Num ?a, min_db = Num ?b, dynamic_range = Num (?a - ?b)\<rparr>"
    using mx mn by (simp add: detect_db_range_def amplitude_db_pos [OF mx_pos] amplitude_db_pos [OF mn_pos])
  moreover have "0 \<le> ?a - ?b"
    using amplitude_db_mono [OF mn_pos le] by simp
  ultimately show ?thesis by blast
qed

text \<open>
  Claim C8 promises, for every waveform with a nonzero sample, a dynamic range
  \<open>max_db - min_db \<ge> 0\<close>. \<open>detect_db_range_nonzero\<close> proves it when no sample is
  -32768. On the clipped two-sample waveform \<open>[-32768, 16384]\<close> the int16 absolute
  value of -32768 is -32768 again: the minimum amplitude is negative, \<open>min_db\<close> is minus
  infinity and the dynamic range is reported as 0, although \<open>max_db\<close> is finite.
\<close>

theorem detect_db_range_int16_min:
  "detect_db_range [- 32768, 16384] =
     Inr \<lparr>max_db = Num (20 * log 10 (16384 / ref_level)), min_db = NegInf,
          dynamic_range = Num 0\<rparr>
   \<and> fsub (Num (20 * log 10 (16384 / ref_level))) NegInf = PosInf"
  using ref_level_pos
  by (simp add: detect_db_range_def np_abs_def nonzero_def abs16_def max16_def min16_def
      amplitude_db_def float_of_int16_def)

section \<open>Normalisation\<close>

lemma normalize_waveform_all_zero:
  assumes "w \<noteq> []" and "\<forall>x\<in>set w. x = 0"
  shows "normalize_waveform w = Inr (Int16Array w)"
proof -
  obtain m where m: "np_max (np_abs w) = Inr m" "m \<in> set (np_abs w)"
    using np_max_cases [of "np_abs w"] assms(1) by (auto simp: np_abs_def)
  then have "m = 0" using assms(2) by (auto simp: np_abs_def abs16_def)
  then show ?thesis using m(1) by (simp add: normalize_waveform_def)
qed

lemma normalize_waveform_range:
  assumes nz: "\<exists>x\<in>set w. x \<noteq> 0" and nm: "\<forall>x\<in>set w. x \<noteq> - 32768"
  shows "\<exists>ys. normalize_waveform w = Inr (Float64Array ys) \<and> length ys = length w
           \<and> (\<forall>y\<in>set ys. - 1 \<le> y \<and> y \<le> 1) \<and> (\<exists>y\<in>set ys. \<bar>y\<bar> = 1)"
proof -
  have sa: "sint (abs16 x) = \<bar>sint x\<bar>" if "x \<in> set w" for x
  proof -
    have "sint x \<noteq> - 32768"
    proof
      assume "sint x = - 32768"
      moreover have "sint (- 32768 :: int16) = - 32768" by simp
      ultimately have "x = - 32768" by (simp add: word_eq_iff_signed [where ?'a = int])
      with nm that show False by blast
    qed
    then show ?thesis by (rule sint_abs16)
  qed
  have ne: "np_abs w \<noteq> []" using nz by (auto simp: np_abs_def)
  obtain mx where mx: "np_max (np_abs w) = Inr mx"
      and mx_mem: "mx \<in> set (np_abs w)"
      and mx_ge: "\<forall>y\<in>set (np_abs w). sint y \<le> sint mx"
    using np_max_cases [OF ne] by blast
  from nz obtain z where z: "z \<in> set w" "z \<noteq> 0" by blast
  have "abs16 z \<in> set (np_abs w)" using z(1) by (simp add: np_abs_def)
  then have "\<bar>sint z\<bar> \<le> sint mx" using mx_ge sa [OF z(1)] by fastforce
  moreover have "sint z \<noteq> 0" using z(2) by (simp add: sint_eq_0_iff)
  ultimately have pos: "0 < sint mx" by simp
  let ?ys = "map (\<lambda>x. float_of_int16 x / float_of_int16 mx) w"
  have eq: "normalize_waveform w = Inr (Float64Array ?ys)"
    using mx pos by (simp add: normalize_waveform_def)
  have bound: "- 1 \<le> y \<and> y \<le> 1" if "y \<in> set ?ys" for y
  proof -
    from that obtain x where x: "x \<in> set w" "y = float_of_int16 x / float_of_int16 mx"
      by auto
    have "abs16 x \<in> set (np_abs w)" using x(1) by (simp add: np_abs_def)
    then have "\<bar>sint x\<bar> \<le> sint mx" using mx_ge sa [OF x(1)] by fastforce
    then have "\<bar>float_of_int16 x\<bar> \<le> float_of_int16 mx"
      unfolding float_of_int16_def by linarith
    moreover have "0 < float_of_int16 mx" using pos by (simp add: float_of_int16_pos)
    ultimately have "\<bar>y\<bar> \<le> 1" using x(2) by simp
    then show ?thesis by linarith
  qed
  from mx_mem obtain u where u: "u \<in> set w" "mx = abs16 u" by (auto simp: np_abs_def)
  have "float_of_int16 mx = \<bar>float_of_int16 u\<bar>"
    using sa [OF u(1)] u(2) unfolding float_of_int16_def by simp
  moreover have "0 < float_of_int16 mx" using pos by (simp add: float_of_int16_pos)
  ultimately have "\<bar>float_of_int16 u / float_of_int16 mx\<bar> = 1"
    by simp
  then have "\<exists>y\<in>set ?ys. \<bar>y\<bar> = 1" using u(1) by auto
  then show ?thesis using eq bound by (intro exI [of _ ?ys]) simp
qed

text \<open>
  Claim C9 promises that every waveform with a nonzero sample is scaled into [-1, 1]
  with maximum absolute value 1. \<open>normalize_waveform_range\<close> proves it when no sample
  is -32768. On \<open>[-32768, 1]\<close> the int16 absolute values are -32768 and 1, the maximum
  is 1 and the result still contains -32768.0; on \<open>[-32768]\<close> the maximum is negative
  and the waveform comes back unscaled.
\<close>

theorem normalize_waveform_int16_min:
  "normalize_waveform [- 32768, 1] = Inr (Float64Array [- 32768, 1])
   \<and> normalize_waveform [- 32768] = Inr (Int16Array [- 32768])"
  by (simp add: normalize_waveform_def np_abs_def abs16_def max16_def float_of_int16_def)

section \<open>Loading samples\<close>

lemma length_int16_of_bytes: "length (int16_of_bytes bs) = length bs div 2"
  by (induction bs rule: int16_of_bytes.induct) simp_all

lemma nth_int16_of_bytes:
  "i < length bs div 2 \<Longrightarrow> int16_of_bytes bs ! i = word_cat (bs ! (2 * i + 1)) (bs ! (2 * i))"
proof (induction bs arbitrary: i rule: int16_of_bytes.induct)
  case (1 lo hi bs)
  then show ?case by (cases i) simp_all
qed simp_all

lemma length_every_other: "length (every_other xs) = (length xs + 1) div 2"
  by (induction xs rule: every_other.induct) simp_all

lemma nth_every_other:
  "i < (length xs + 1) div 2 \<Longrightarrow> every_other xs ! i = xs ! (2 * i)"
proof (induction xs arbitrary: i rule: every_other.induct)
  case (1 x y xs)
  then show ?case by (cases i) simp_all
qed simp_all

lemma getnframes_bytes: "getnframes f * (nchannels f * sampwidth f) \<le> data_size f"
  by (simp add: getnframes_def)

lemma length_readframes:
  assumes "data_size f \<le> length (data f)"
  shows "length (readframes f (getnframes f)) = getnframes f * (nchannels f * sampwidth f)"
  using assms getnframes_bytes [of f] by (simp add: readframes_def)

lemma nth_readframes:
  assumes "data_size f \<le> length (data f)" and "j < getnframes f * (nchannels f * sampwidth f)"
  shows "readframes f (getnframes f) ! j = data f ! j"
proof -
  have "getnframes f \<noteq> 0" using assms(2) by (cases "getnframes f") simp_all
  then show ?thesis
    using assms getnframes_bytes [of f] by (simp add: readframes_def)
qed

text \<open>
  Claim C5, as stated: every PCM WAV file is loaded with one sample per frame. A mono
  file with 8-bit samples and two frames is PCM; its two bytes are read as a single
  int16 sample.
\<close>

theorem load_wave_data_8bit:
  "load_wave_data
     (\<lambda>p. Inr \<lparr>framerate = 8000, nchannels = 1, sampwidth = 1, data_size = 2,
                data = [128, 130]\<rparr>)
     ''tone.wav''
   = Inr \<lparr>wd_waveform = [- 32128], wd_sample_rate = 8000, wd_duration = 2 / 8000, wd_channels = 1\<rparr>
   \<and> getnframes \<lparr>framerate = 8000, nchannels = 1, sampwidth = 1, data_size = 2,
                  data = [128, 130]\<rparr> = 2"
  by (simp add: load_wave_data_def wave_open_def getnframes_def readframes_def np_frombuffer_def
      true_div_def word_cat_eq)

text \<open>
  Claim C5, amended: for every PCM WAV file with 16-bit samples, one or two channels and
  a nonzero frame rate whose data chunk is complete (the file holds all the bytes that
  the header of the data chunk declares), \<open>load_wave_data\<close> returns a waveform with
  exactly one sample per frame, the sample of channel 0 (all samples of a mono file,
  the left channel of a stereo file), together with the frame rate, the number of
  channels and the duration \<open>frames / frame rate\<close>.
\<close>

theorem load_wave_data_pcm16:
  assumes found: "fs file_path = Inr f"
    and width: "sampwidth f = 2"
    and chans: "nchannels f = 1 \<or> nchannels f = 2"
    and rate: "framerate f \<noteq> 0"
    and complete: "data_size f \<le> length (data f)"
  shows "\<exists>r. load_wave_data fs file_path = Inr r
           \<and> length (wd_waveform r) = getnframes f
           \<and> (\<forall>i<getnframes f. wd_waveform r ! i = pcm16_sample f i 0)
           \<and> wd_sample_rate r = framerate f
           \<and> wd_channels r = nchannels f
           \<and> wd_duration r = real (getnframes f) / real (framerate f)"
proof -
  let ?n = "getnframes f"
  let ?raw = "readframes f ?n"
  have opened: "wave_open fs file_path = Inr f"
    using found width chans by (auto simp: wave_open_def)
  have len_raw: "length ?raw = ?n * (nchannels f * 2)"
    using length_readframes [OF complete] width by simp
  then have even: "length ?raw mod 2 = 0" by simp
  have buf: "np_frombuffer ?raw = Inr (int16_of_bytes ?raw)"
    using even by (simp add: np_frombuffer_def)
  have len_audio: "length (int16_of_bytes ?raw) = ?n * nchannels f"
    using len_raw by (simp add: length_int16_of_bytes)
  have nth_audio: "int16_of_bytes ?raw ! j = word_cat (data f ! (2 * j + 1)) (data f ! (2 * j))"
    if "j < ?n * nchannels f" for j
  proof -
    have "j < length ?raw div 2" using that len_raw by simp
    then have "int16_of_bytes ?raw ! j = word_cat (?raw ! (2 * j + 1)) (?raw ! (2 * j))"
      by (rule nth_int16_of_bytes)
    moreover have "2 * j + 1 < ?n * (nchannels f * sampwidth f)"
      using that width by simp
    moreover have "2 * j < ?n * (nchannels f * sampwidth f)"
      using that width by simp
    ultimately show ?thesis by (simp add: nth_readframes [OF complete])
  qed
  let ?w = "if nchannels f = 1 then int16_of_bytes ?raw else every_other (int16_of_bytes ?raw)"
  let ?r = "\<lparr>wd_waveform = ?w, wd_sample_rate = framerate f,
             wd_duration = real ?n / real (framerate f), wd_channels = nchannels f\<rparr>"
  have res: "load_wave_data fs file_path = Inr ?r"
    using opened buf rate by (simp add: load_wave_data_def true_div_def Let_def)
  have len: "length ?w = ?n"
    using chans len_audio by (auto simp: length_every_other)
  have nth: "?w ! i = pcm16_sample f i 0" if "i < ?n" for i
  proof (cases "nchannels f = 1")
    case True
    then show ?thesis using nth_audio [of i] that by (simp add: pcm16_sample_def)
  next
    case False
    then have two: "nchannels f = 2" using chans by simp
    have "every_other (int16_of_bytes ?raw) ! i = int16_of_bytes ?raw ! (2 * i)"
      using that len_audio two by (intro nth_every_other) simp
    moreover have "2 * i < ?n * nchannels f" using that two by simp
    ultimately show ?thesis
      using nth_audio [of "2 * i"] two by (simp add: pcm16_sample_def mult.commute)
  qed
  show ?thesis
    using res len nth by (intro exI [of _ ?r]) simp
qed

theorem load_wave_data_pcm16_witness:
  "(\<lambda>p. Inr \<lparr>framerate = 8000, nchannels = 2, sampwidth = 2, data_size = 8,
              data = [1, 0, 2, 0, 3, 0, 4, 0]\<rparr>) ''stereo.wav''
     = (Inr \<lparr>framerate = 8000, nchannels = 2, sampwidth = 2, data_size = 8,
              data = [1, 0, 2, 0, 3, 0, 4, 0]\<rparr> :: error + wav_file)
   \<and> (\<exists>r. load_wave_data
            (\<lambda>p. Inr \<lparr>framerate = 8000, nchannels = 2, sampwidth = 2, data_size = 8,
                       data = [1, 0, 2, 0, 3, 0, 4, 0]\<rparr>) ''stereo.wav'' = Inr r
          \<and> length (wd_waveform r) = 2
          \<and> wd_waveform r ! 0 = 1 \<and> wd_waveform r ! 1 = 3
          \<and> wd_sample_rate r = 8000 \<and> wd_channels r = 2 \<and> wd_duration r = 2 / 8000)"
proof -
  let ?f = "\<lparr>framerate = 8000, nchannels = 2, sampwidth = 2, data_size = 8,
             data = [1, 0, 2, 0, 3, 0, 4, 0] :: 8 word list\<rparr>"
  have frames: "getnframes ?f = 2" by (simp add: getnframes_def)
  have first: "pcm16_sample ?f 0 0 = 1" by (simp add: pcm16_sample_def word_cat_eq)
  have second: "pcm16_sample ?f 1 0 = 3" by (simp add: pcm16_sample_def word_cat_eq)
  obtain r where r: "load_wave_data (\<lambda>p. Inr ?f) ''stereo.wav'' = Inr r"
      "length (wd_waveform r) = getnframes ?f"
      "\<forall>i<getnframes ?f. wd_waveform r ! i = pcm16_sample ?f i 0"
      "wd_sample_rate r = framerate ?f" "wd_channels r = nchannels ?f"
      "wd_duration r = real (getnframes ?f) / real (framerate ?f)"
    using load_wave_data_pcm16 [of "\<lambda>p. Inr ?f" "''stereo.wav''" ?f] by auto
  have "wd_waveform r ! 0 = 1" "wd_waveform r ! 1 = 3"
    using r(3) first second unfolding frames by auto
  then show ?thesis using r frames by (intro conjI exI [of _ r]) simp_all
qed

text \<open>
  A truncated data chunk: the header declares eight bytes, four frames of a mono 16-bit
  file. With four bytes present the waveform has two samples for the four frames that
  \<open>getnframes\<close> reports; with three bytes present \<open>np.frombuffer\<close> raises.
\<close>

lemma load_wave_data_truncated:
  "load_wave_data
     (\<lambda>p. Inr \<lparr>framerate = 8000, nchannels = 1, sampwidth = 2, data_size = 8,
                data = [1, 0, 2, 0]\<rparr>) ''cut.wav''
   = Inr \<lparr>wd_waveform = [1, 2], wd_sample_rate = 8000, wd_duration = 4 / 8000, wd_channels = 1\<rparr>"
  "load_wave_data
     (\<lambda>p. Inr \<lparr>framerate = 8000, nchannels = 1, sampwidth = 2, data_size = 8,
                data = [1, 0, 2]\<rparr>) ''cut.wav''
   = Inl (Exception ''Error loading WAV data: buffer size must be a multiple of element size'')"
  by (simp_all add: load_wave_data_def wave_open_def getnframes_def readframes_def
      np_frombuffer_def true_div_def word_cat_eq)

section \<open>Filters with an out-of-range cutoff\<close>

text \<open>
  Claim C10, as stated: for every sample rate, a low-pass cutoff at or above
  \<open>sample_rate / 2\<close> returns the input and raises nothing. At sample rate 0 the cutoff
  100 is above \<open>sample_rate / 2\<close> and the division by the Nyquist frequency raises.
\<close>

theorem apply_lowpass_filter_zero_rate:
  "(0::real) / 2 \<le> 100 \<and>
   apply_lowpass_filter (\<lambda>order wn bt w. Inr w) [1, 2, 3] 0 100 5
     = Inl (ZeroDivisionError ''float division by zero'')"
  by (simp add: apply_lowpass_filter_def py_div_def)

text \<open>
  Claim C10, amended: for every waveform and every positive sample rate,
  \<open>apply_lowpass_filter\<close> returns its input unchanged whenever the cutoff is at least
  \<open>sample_rate / 2\<close>, and \<open>apply_highpass_filter\<close> returns its input unchanged whenever
  the cutoff is at most 0; no error is raised and the filter design is not called.
\<close>

theorem filters_identity:
  assumes "0 < sample_rate"
  shows "(sample_rate / 2 \<le> low_cutoff \<longrightarrow>
            apply_lowpass_filter scipy w sample_rate low_cutoff order = Inr w)
       \<and> (high_cutoff \<le> 0 \<longrightarrow>
            apply_highpass_filter scipy w sample_rate high_cutoff order = Inr w)"
proof -
  have "1 \<le> low_cutoff / (sample_rate / 2)" if "sample_rate / 2 \<le> low_cutoff"
    using that assms by (simp add: field_simps)
  moreover have "high_cutoff / (sample_rate / 2) \<le> 0" if "high_cutoff \<le> 0"
    using that assms by (simp add: field_simps)
  ultimately show ?thesis
    using assms by (simp add: apply_lowpass_filter_def apply_highpass_filter_def py_div_def)
qed

theorem filters_identity_witness:
  "(0::real) < 44100 \<and> (44100::real) / 2 \<le> 30000 \<and> (0::real) \<le> 0
   \<and> apply_lowpass_filter (\<lambda>order wn bt w. Inl (ValueError ''unused'')) [1, 2, 3] 44100 30000 5
       = Inr [1, 2, 3]
   \<and> apply_highpass_filter (\<lambda>order wn bt w. Inl (ValueError ''unused'')) [1, 2, 3] 44100 0 5
       = Inr [1, 2, 3]"
proof -
  have h: "(0::real) < 44100" by simp
  show ?thesis
    using h filters_identity [OF h, of 30000 "\<lambda>order wn bt w. Inl (ValueError ''unused'')"
        "[1, 2, 3]" 5 0]
    by simp
qed

section \<open>The complete analysis: the order of the steps\<close>

lemmas io_defs = io_bind_def io_return_def emit_def io_of_def external_def py_print_def















text \<open>
  The dashboard does detect harmonics: a run of \<open>analyze_audio\<close> that returns has gone
  through the stages load, metrics, harmonics, plot.
\<close>

lemma analyze_audio_stages:
  assumes "analyze_audio ev sp (Inr tmp_path) name [] = (Inr r, out)"
  shows "stages out = [Load, Load, Metrics, Harmonics, Plot]"
  using assms
  by (auto simp: analyze_audio_def analyze_audio_body_def io_defs stages_def
      List.map_filter_simps split: sum.splits prod.splits if_splits)




section \<open>The complete analysis: exceptions\<close>






section \<open>Harmonic detection: peaks of the spectrum\<close>






lemma mask_select_self: "mask_select (map P xs) xs = filter P xs"
  by (induction xs) (simp_all add: mask_select_def)

lemma length_mask_select:
  "length ys = length xs \<Longrightarrow> length (mask_select (map P xs) ys) = length (filter P xs)"
proof (induction xs arbitrary: ys)
  case Nil
  then show ?case by (simp add: mask_select_def)
next
  case (Cons x xs)
  then obtain y ys' where ys: "ys = y # ys'" by (cases ys) auto
  then have "length ys' = length xs" using Cons.prems by simp
  then have "length (mask_select (map P xs) ys') = length (filter P xs)" by (rule Cons.IH)
  then show ?case by (simp add: ys mask_select_def)
qed


lemma np_amax_nonempty: "xs \<noteq> [] \<Longrightarrow> \<exists>m. np_amax xs = Inr m"
  by (cases xs) simp_all

lemma length_np_fftfreq: "length (np_fftfreq n d) = n"
  by (simp add: np_fftfreq_def)


lemma np_fftfreq_second:
  assumes "3 \<le> n" and "0 < sample_rate"
  shows "\<exists>f\<in>set (np_fftfreq n (1 / sample_rate)). 0 < f"
proof -
  have "1 < n" using assms(1) by simp
  then have "np_fftfreq n (1 / sample_rate) ! 1 \<in> set (np_fftfreq n (1 / sample_rate))"
    by (intro nth_mem) (simp add: length_np_fftfreq)
  moreover have "np_fftfreq n (1 / sample_rate) ! 1 = sample_rate / real n"
    using assms(1) by (simp add: np_fftfreq_def fftfreq_index_def)
  moreover have "0 < sample_rate / real n" using assms by simp
  ultimately show ?thesis by metis
qed












section \<open>Harmonic detection: the spectrum of a two-tone waveform\<close>





















section \<open>The six figures\<close>

lemma positive_spectrum_succeeds:
  assumes n: "3 \<le> length w" and rate: "0 < sample_rate"
  shows "\<exists>freqs magnitude mx.
           positive_spectrum w sample_rate = Inr (freqs, magnitude)
         \<and> np_amax magnitude = Inr mx"
proof -
  define fft where "fft = map (dft_coeff (map float_of_int16 w)) [0..<length w]"
  define freqs0 where "freqs0 = np_fftfreq (length w) (1 / sample_rate)"
  define freqs where "freqs = filter (\<lambda>f. 0 < f) freqs0"
  define magnitude where "magnitude = mask_select (map (\<lambda>f. 0 < f) freqs0) (map cmod fft)"
  have ne: "w \<noteq> []" using n by auto
  have len_fft: "length fft = length w" by (simp add: fft_def)
  have spec: "positive_spectrum w sample_rate = Inr (freqs, magnitude)"
    using ne rate
    by (simp add: positive_spectrum_def np_fft_def py_div_def Let_def fft_def [symmetric]
        len_fft freqs0_def [symmetric] mask_select_self freqs_def magnitude_def)
  have len_eq: "length magnitude = length freqs"
    unfolding magnitude_def freqs_def
    by (rule length_mask_select) (simp add: freqs0_def length_np_fftfreq len_fft)
  have "freqs \<noteq> []"
    using np_fftfreq_second [OF n rate]
    by (auto simp: freqs_def freqs0_def filter_empty_conv)
  then have "magnitude \<noteq> []" using len_eq by auto
  then obtain mx where "np_amax magnitude = Inr mx"
    using np_amax_nonempty by blast
  then show ?thesis using spec by blast
qed

lemma slice_step_one: "slice_step (Suc 0) a = a"
  by (simp add: slice_step_def map_nth)

lemma spectrogram_raises_short:
  assumes "w \<noteq> []" and "length w < 8"
  shows "create_spectrogram_plot sp w sample_rate t
           = Inl (ValueError ''nperseg must be a positive integer'')"
  using assms
  by (simp add: create_spectrogram_plot_def signal_spectrogram_def scipy_segments_def)

lemma create_all_visualizations_raises:
  assumes "length w < 8"
  shows "\<exists>e. create_all_visualizations sp w sample_rate duration filename = Inl e"
proof (cases "w = []")
  case True
  then show ?thesis
    by (simp add: create_all_visualizations_def create_waveform_plot_def
        create_frequency_spectrum_plot_def positive_spectrum_def np_fft_def Let_def
        split: prod.splits)
next
  case False
  show ?thesis
  proof (cases "create_frequency_spectrum_plot w sample_rate (''Frequency Spectrum - '' @ filename)")
    case (Inl e)
    then show ?thesis
      by (simp add: create_all_visualizations_def create_waveform_plot_def Let_def
          split: prod.splits)
  next
    case (Inr f2)
    then show ?thesis
      using spectrogram_raises_short [OF False assms]
      by (simp add: create_all_visualizations_def create_waveform_plot_def Let_def
          split: prod.splits)
  qed
qed


lemma scipy_segments_ok: "1 \<le> n \<Longrightarrow> scipy_segments n (n div 2) = Inr ()"
  by (simp add: scipy_segments_def)

text \<open>
  Claim C6, as stated: for every waveform, sample rate, duration and filename the six
  figures are returned. On an empty waveform the spectrum plot raises in \<open>np.fft.fft\<close>;
  on a waveform of three samples the segment length of the spectrogram is
  \<open>min(1024, 3 // 8) = 0\<close> and scipy raises. Nothing is returned in either case,
  whatever scipy computes on other inputs.
\<close>

theorem create_all_visualizations_short:
  "\<forall>sp. create_all_visualizations sp [] 44100 0 ''Audio''
          = Inl (ValueError ''Invalid number of FFT data points (0) specified.'')
       \<and> create_all_visualizations sp [1, 2, 3] 44100 (3 / 44100) ''Audio''
          = Inl (ValueError ''nperseg must be a positive integer'')"
proof
  fix sp
  have "3 \<le> length [1, 2, 3 :: int16]" by simp
  moreover have "(0::real) < 44100" by simp
  ultimately obtain freqs magnitude mx where
    "positive_spectrum [1, 2, 3] 44100 = Inr (freqs, magnitude)" "np_amax magnitude = Inr mx"
    using positive_spectrum_succeeds by blast
  then have "create_all_visualizations sp [1, 2, 3] 44100 (3 / 44100) ''Audio''
     = Inl (ValueError ''nperseg must be a positive integer'')"
    by (simp add: create_all_visualizations_def create_waveform_plot_def
        create_frequency_spectrum_plot_def create_spectrogram_plot_def signal_spectrogram_def
        scipy_segments_def Let_def)
  moreover have "create_all_visualizations sp [] 44100 0 ''Audio''
     = Inl (ValueError ''Invalid number of FFT data points (0) specified.'')"
    by (simp add: create_all_visualizations_def create_waveform_plot_def
        create_frequency_spectrum_plot_def positive_spectrum_def np_fft_def Let_def)
  ultimately show "create_all_visualizations sp [] 44100 0 ''Audio''
          = Inl (ValueError ''Invalid number of FFT data points (0) specified.'')
       \<and> create_all_visualizations sp [1, 2, 3] 44100 (3 / 44100) ''Audio''
          = Inl (ValueError ''nperseg must be a positive integer'')"
    by simp
qed

text \<open>
  Claim C6, amended: for every positive sample rate, every duration and every filename,
  on a waveform of at least eight samples \<open>create_all_visualizations\<close> returns exactly
  six figures under the keys waveform, spectrum, spectrogram, psd, phase and histogram,
  in this order: the line plot of the samples over time, the line plot of the spectrum
  in dB relative to its maximum, the heat map of the spectrogram that scipy computes
  for segments of \<open>min(1024, len // 8)\<close> samples, the line plot of the Welch estimate
  that scipy computes for segments of \<open>min(1024, len // 4)\<close> samples, both in dB, the
  plot of the phase angles in degrees, and the histogram of the samples in 100 bins,
  each with its title. On a waveform of fewer than eight samples one of the plot
  constructors raises and nothing is returned.
\<close>

theorem create_all_visualizations_six:
  assumes rate: "0 < sample_rate"
  shows "(8 \<le> length w \<longrightarrow>
           (\<exists>freqs magnitude mx.
              positive_spectrum w sample_rate = Inr (freqs, magnitude)
            \<and> np_amax magnitude = Inr mx
            \<and> create_all_visualizations sp w sample_rate duration filename =
                Inr [(''waveform'',
                      (let step = (if 50000 < length w then length w div 50000 else 1)
                       in \<lparr>fig_trace =
                              Scatter (map Num (slice_step step
                                                  (np_linspace 0 duration (length w))))
                                (map (\<lambda>s. Num (float_of_int16 s)) (slice_step step w))
                                ''Amplitude'',
                            fig_title = ''<b>Waveform - '' @ filename @ ''</b>'',
                            fig_xaxis = ''Time (seconds)'', fig_yaxis = ''Amplitude''\<rparr>)),
                     (''spectrum'',
                      (let level = map (\<lambda>m. fmul 20 (np_log10 (fadd (fdivide m mx)
                                                                   (1 / 10 ^ 10)))) magnitude
                       in \<lparr>fig_trace =
                              Scatter (map Num freqs)
                                (if 2000 < length level
                                 then convolve_ones_same level (length level div 1000)
                                 else level)
                                ''Level'',
                            fig_title =
                              ''<b>Frequency Spectrum - '' @ filename
                                @ ''</b><br><span style=\"font-size:12px;color:#888\">''
                                @ ''Frequency Analysis (like Audacity)</span>'',
                            fig_xaxis = ''<b>Frequency (Hz)</b>'',
                            fig_yaxis = ''<b>Level (dB)</b>''\<rparr>)),
                     (''spectrogram'',
                      (case spectrogram_values sp w sample_rate (min 1024 (length w div 8))
                              (min 1024 (length w div 8) div 2) of
                         (frequencies, segment_times, Sxx) \<Rightarrow>
                           \<lparr>fig_trace = Heatmap segment_times frequencies
                                          (map (map power_db) Sxx),
                            fig_title = ''<b>Spectrogram - '' @ filename @ ''</b>'',
                            fig_xaxis = ''Time (seconds)'',
                            fig_yaxis = ''Frequency (Hz)''\<rparr>)),
                     (''psd'',
                      (case welch_values sp w sample_rate (min 1024 (length w div 4)) of
                         (frequencies, psd) \<Rightarrow>
                           \<lparr>fig_trace = Scatter frequencies (map power_db psd) ''PSD'',
                            fig_title = ''<b>Power Spectral Density - '' @ filename @ ''</b>'',
                            fig_xaxis = ''Frequency (Hz)'',
                            fig_yaxis = ''Power/Frequency (dB/Hz)''\<rparr>)),
                     (''phase'',
                      (let phase = mask_select
                                     (map (\<lambda>f. 0 < f)
                                        (np_fftfreq (length w) (1 / sample_rate)))
                                     (map (\<lambda>k. np_angle_deg
                                                  (dft_coeff (map float_of_int16 w) k))
                                        [0..<length w]);
                           step = (if 5000 < length freqs then length freqs div 5000 else 1)
                       in \<lparr>fig_trace = Scatter (map Num (slice_step step freqs))
                                          (map Num (slice_step step phase)) ''Phase'',
                            fig_title = ''<b>Phase Response - '' @ filename @ ''</b>'',
                            fig_xaxis = ''Frequency (Hz)'',
                            fig_yaxis = ''Phase (degrees)''\<rparr>)),
                     (''histogram'',
                      \<lparr>fig_trace = Histogram w 100 ''Distribution'',
                       fig_title = ''<b>Amplitude Distribution - '' @ filename @ ''</b>'',
                       fig_xaxis = ''Amplitude'', fig_yaxis = ''Count''\<rparr>)]))
       \<and> (length w < 8 \<longrightarrow>
            (\<exists>e. create_all_visualizations sp w sample_rate duration filename = Inl e))"
proof (intro conjI impI)
  assume "length w < 8"
  then show "\<exists>e. create_all_visualizations sp w sample_rate duration filename = Inl e"
    by (rule create_all_visualizations_raises)
next
  assume n: "8 \<le> length w"
  then have ne: "w \<noteq> []" by auto
  have "3 \<le> length w" using n by simp
  then obtain freqs magnitude mx where
    spec: "positive_spectrum w sample_rate = Inr (freqs, magnitude)"
    and mx: "np_amax magnitude = Inr mx"
    using positive_spectrum_succeeds rate by blast
  have freqs: "freqs = mask_select (map (\<lambda>f. 0 < f) (np_fftfreq (length w) (1 / sample_rate)))
                         (np_fftfreq (length w) (1 / sample_rate))"
    using spec ne rate
    by (simp add: positive_spectrum_def np_fft_def py_div_def Let_def)
  have seg8: "scipy_segments (min 1024 (length w div 8)) (min 1024 (length w div 8) div 2) = Inr ()"
    using n by (intro scipy_segments_ok) simp
  have seg4: "scipy_segments (min 1024 (length w div 4)) (min 1024 (length w div 4) div 2) = Inr ()"
    using n by (intro scipy_segments_ok) simp
  have f1: "create_waveform_plot w sample_rate duration (''Waveform - '' @ filename) =
      Inr (let step = (if 50000 < length w then length w div 50000 else 1)
           in \<lparr>fig_trace =
                  Scatter (map Num (slice_step step (np_linspace 0 duration (length w))))
                    (map (\<lambda>s. Num (float_of_int16 s)) (slice_step step w)) ''Amplitude'',
                fig_title = ''<b>Waveform - '' @ filename @ ''</b>'',
                fig_xaxis = ''Time (seconds)'', fig_yaxis = ''Amplitude''\<rparr>)"
    by (simp add: create_waveform_plot_def Let_def slice_step_one)
  have f2: "create_frequency_spectrum_plot w sample_rate (''Frequency Spectrum - '' @ filename) =
      Inr (let level = map (\<lambda>m. fmul 20 (np_log10 (fadd (fdivide m mx) (1 / 10 ^ 10)))) magnitude
           in \<lparr>fig_trace =
                  Scatter (map Num freqs)
                    (if 2000 < length level
                     then convolve_ones_same level (length level div 1000) else level)
                    ''Level'',
                fig_title =
                  ''<b>Frequency Spectrum - '' @ filename
                    @ ''</b><br><span style=\"font-size:12px;color:#888\">''
                    @ ''Frequency Analysis (like Audacity)</span>'',
                fig_xaxis = ''<b>Frequency (Hz)</b>'',
                fig_yaxis = ''<b>Level (dB)</b>''\<rparr>)"
    by (simp add: create_frequency_spectrum_plot_def spec mx Let_def)
  have f3: "create_spectrogram_plot sp w sample_rate (''Spectrogram - '' @ filename) =
      Inr (case spectrogram_values sp w sample_rate (min 1024 (length w div 8))
                  (min 1024 (length w div 8) div 2) of
             (frequencies, segment_times, Sxx) \<Rightarrow>
               \<lparr>fig_trace = Heatmap segment_times frequencies (map (map power_db) Sxx),
                fig_title = ''<b>Spectrogram - '' @ filename @ ''</b>'',
                fig_xaxis = ''Time (seconds)'', fig_yaxis = ''Frequency (Hz)''\<rparr>)"
    using ne
    by (simp add: create_spectrogram_plot_def signal_spectrogram_def seg8 Let_def
        split: prod.splits)
  have f4: "create_psd_plot sp w sample_rate (''Power Spectral Density - '' @ filename) =
      Inr (case welch_values sp w sample_rate (min 1024 (length w div 4)) of
             (frequencies, psd) \<Rightarrow>
               \<lparr>fig_trace = Scatter frequencies (map power_db psd) ''PSD'',
                fig_title = ''<b>Power Spectral Density - '' @ filename @ ''</b>'',
                fig_xaxis = ''Frequency (Hz)'', fig_yaxis = ''Power/Frequency (dB/Hz)''\<rparr>)"
    using ne
    by (simp add: create_psd_plot_def signal_welch_def seg4 split: prod.splits)
  have f5: "create_phase_plot w sample_rate (''Phase Response - '' @ filename) =
      Inr (let phase = mask_select
                         (map (\<lambda>f. 0 < f) (np_fftfreq (length w) (1 / sample_rate)))
                         (map (\<lambda>k. np_angle_deg (dft_coeff (map float_of_int16 w) k))
                            [0..<length w]);
               step = (if 5000 < length freqs then length freqs div 5000 else 1)
           in \<lparr>fig_trace = Scatter (map Num (slice_step step freqs))
                              (map Num (slice_step step phase)) ''Phase'',
                fig_title = ''<b>Phase Response - '' @ filename @ ''</b>'',
                fig_xaxis = ''Frequency (Hz)'', fig_yaxis = ''Phase (degrees)''\<rparr>)"
    using ne rate
    by (simp add: create_phase_plot_def np_fft_def py_div_def Let_def slice_step_one
        freqs [symmetric] comp_def)
  have f6: "create_histogram_plot w (''Amplitude Distribution - '' @ filename) =
      Inr \<lparr>fig_trace = Histogram w 100 ''Distribution'',
           fig_title = ''<b>Amplitude Distribution - '' @ filename @ ''</b>'',
           fig_xaxis = ''Amplitude'', fig_yaxis = ''Count''\<rparr>"
    by (simp add: create_histogram_plot_def)
  have "create_all_visualizations sp w sample_rate duration filename =
      Inr [(''waveform'', projr (create_waveform_plot w sample_rate duration
                                   (''Waveform - '' @ filename))),
           (''spectrum'', projr (create_frequency_spectrum_plot w sample_rate
                                   (''Frequency Spectrum - '' @ filename))),
           (''spectrogram'', projr (create_spectrogram_plot sp w sample_rate
                                      (''Spectrogram - '' @ filename))),
           (''psd'', projr (create_psd_plot sp w sample_rate
                              (''Power Spectral Density - '' @ filename))),
           (''phase'', projr (create_phase_plot w sample_rate (''Phase Response - '' @ filename))),
           (''histogram'', projr (create_histogram_plot w
                                    (''Amplitude Distribution - '' @ filename)))]"
    unfolding create_all_visualizations_def
    by (simp only: f1 f2 f3 f4 f5 f6 sum.case sum.sel)
  then show "\<exists>freqs magnitude mx.
              positive_spectrum w sample_rate = Inr (freqs, magnitude)
            \<and> np_amax magnitude = Inr mx
            \<and> create_all_visualizations sp w sample_rate duration filename =
                Inr [(''waveform'',
                      (let step = (if 50000 < length w then length w div 50000 else 1)
                       in \<lparr>fig_trace =
                              Scatter (map Num (slice_step step
                                                  (np_linspace 0 duration (length w))))
                                (map (\<lambda>s. Num (float_of_int16 s)) (slice_step step w))
                                ''Amplitude'',
                            fig_title = ''<b>Waveform - '' @ filename @ ''</b>'',
                            fig_xaxis = ''Time (seconds)'', fig_yaxis = ''Amplitude''\<rparr>)),
                     (''spectrum'',
                      (let level = map (\<lambda>m. fmul 20 (np_log10 (fadd (fdivide m mx)
                                                                   (1 / 10 ^ 10)))) magnitude
                       in \<lparr>fig_trace =
                              Scatter (map Num freqs)
                                (if 2000 < length level
                                 then convolve_ones_same level (length level div 1000)
                                 else level)
                                ''Level'',
                            fig_title =
                              ''<b>Frequency Spectrum - '' @ filename
                                @ ''</b><br><span style=\"font-size:12px;color:#888\">''
                                @ ''Frequency Analysis (like Audacity)</span>'',
                            fig_xaxis = ''<b>Frequency (Hz)</b>'',
                            fig_yaxis = ''<b>Level (dB)</b>''\<rparr>)),
                     (''spectrogram'',
                      (case spectrogram_values sp w sample_rate (min 1024 (length w div 8))
                              (min 1024 (length w div 8) div 2) of
                         (frequencies, segment_times, Sxx) \<Rightarrow>
                           \<lparr>fig_trace = Heatmap segment_times frequencies
                                          (map (map power_db) Sxx),
                            fig_title = ''<b>Spectrogram - '' @ filename @ ''</b>'',
                            fig_xaxis = ''Time (seconds)'',
                            fig_yaxis = ''Frequency (Hz)''\<rparr>)),
                     (''psd'',
                      (case welch_values sp w sample_rate (min 1024 (length w div 4)) of
                         (frequencies, psd) \<Rightarrow>
                           \<lparr>fig_trace = Scatter frequencies (map power_db psd) ''PSD'',
                            fig_title = ''<b>Power Spectral Density - '' @ filename @ ''</b>'',
                            fig_xaxis = ''Frequency (Hz)'',
                            fig_yaxis = ''Power/Frequency (dB/Hz)''\<rparr>)),
                     (''phase'',
                      (let phase = mask_select
                                     (map (\<lambda>f. 0 < f)
                                        (np_fftfreq (length w) (1 / sample_rate)))
                                     (map (\<lambda>k. np_angle_deg
                                                  (dft_coeff (map float_of_int16 w) k))
                                        [0..<length w]);
                           step = (if 5000 < length freqs then length freqs div 5000 else 1)
                       in \<lparr>fig_trace = Scatter (map Num (slice_step step freqs))
                                          (map Num (slice_step step phase)) ''Phase'',
                            fig_title = ''<b>Phase Response - '' @ filename @ ''</b>'',
                            fig_xaxis = ''Frequency (Hz)'',
                            fig_yaxis = ''Phase (degrees)''\<rparr>)),
                     (''histogram'',
                      \<lparr>fig_trace = Histogram w 100 ''Distribution'',
                       fig_title = ''<b>Amplitude Distribution - '' @ filename @ ''</b>'',
                       fig_xaxis = ''Amplitude'', fig_yaxis = ''Count''\<rparr>)]"
    unfolding f1 f2 f3 f4 f5 f6 sum.sel using spec mx by blast
qed


theorem create_all_visualizations_six_witness:
  "(0::real) < 24 \<and> 8 \<le> length two_tone
   \<and> (\<forall>sp. \<exists>figures. create_all_visualizations sp two_tone 24 1 ''tone.wav'' = Inr figures
            \<and> map fst figures
                = [''waveform'', ''spectrum'', ''spectrogram'', ''psd'', ''phase'', ''histogram'']
            \<and> fig_trace (snd (figures ! 5)) = Histogram two_tone 100 ''Distribution'')
   \<and> length [1, 2, 3 :: int16] < 8
   \<and> (\<forall>sp. \<exists>e. create_all_visualizations sp [1, 2, 3] 24 (1 / 8) ''short.wav'' = Inl e)"
proof -
  have r: "(0::real) < 24" by simp
  have n: "8 \<le> length two_tone" by (simp add: two_tone_def)
  have long: "\<exists>figures. create_all_visualizations sp two_tone 24 1 ''tone.wav'' = Inr figures
            \<and> map fst figures
                = [''waveform'', ''spectrum'', ''spectrogram'', ''psd'', ''phase'', ''histogram'']
            \<and> fig_trace (snd (figures ! 5)) = Histogram two_tone 100 ''Distribution''" for sp
    using create_all_visualizations_six [OF r, of two_tone sp 1 "''tone.wav''"] n
    by auto
  have short: "\<exists>e. create_all_visualizations sp [1, 2, 3] 24 (1 / 8) ''short.wav'' = Inl e" for sp
    using create_all_visualizations_six [OF r, of "[1, 2, 3]" sp "1 / 8" "''short.wav''"]
    by simp
  show ?thesis using r n long short by simp
qed

section \<open>The analysis functions keep no state\<close>

text \<open>
  Each program on the heap returns what the function on values returns for the content
  of its argument, and leaves every array that existed before the call as it was.
\<close>

lemmas heap_prims = hp_bind_def hp_return_def new_int16_def new_float64_def new_complex128_def
  new_bool_def new_intp_def np_abs_at_def np_square_at_def np_max_at_def np_min_at_def
  np_mean_at_def not_equal_zero_at_def index_mask_at_def

lemma wave_to_db_at_run:
  "a < length (int16_arrays h) \<Longrightarrow>
     fst (wave_to_db_at a h) = Inr (wave_to_db (int16_arrays h ! a))
     \<and> heap_extends h (snd (wave_to_db_at a h))"
  by (simp add: wave_to_db_at_def wave_to_db_def heap_prims heap_extends_def nth_append)

lemma wave_to_db_rms_at_run:
  "a < length (int16_arrays h) \<Longrightarrow>
     fst (wave_to_db_rms_at a h) = Inr (wave_to_db_rms (int16_arrays h ! a))
     \<and> heap_extends h (snd (wave_to_db_rms_at a h))"
  by (simp add: wave_to_db_rms_at_def wave_to_db_rms_def heap_prims heap_extends_def nth_append)

lemma detect_db_range_at_run:
  "a < length (int16_arrays h) \<Longrightarrow>
     fst (detect_db_range_at a h) = detect_db_range (int16_arrays h ! a)
     \<and> heap_extends h (snd (detect_db_range_at a h))"
  by (auto simp: detect_db_range_at_def detect_db_range_def heap_prims heap_extends_def
      nth_append mask_select_self nonzero_def Let_def split: sum.splits)

lemma heap_extends_refl: "heap_extends h h"
  by (simp add: heap_extends_def)

lemma heap_extends_trans: "heap_extends h h' \<Longrightarrow> heap_extends h' h'' \<Longrightarrow> heap_extends h h''"
  unfolding heap_extends_def by (meson prefix_order.order_trans)

lemma heap_extends_int16:
  "heap_extends h h' \<Longrightarrow> a < length (int16_arrays h) \<Longrightarrow>
     a < length (int16_arrays h') \<and> int16_arrays h' ! a = int16_arrays h ! a"
  unfolding heap_extends_def by (auto simp: prefix_def nth_append)

lemma hp_bind_run:
  assumes m: "fst (m h) = r1 \<and> heap_extends h (snd (m h))"
    and f: "\<And>x. r1 = Inr x \<Longrightarrow>
              fst (f x (snd (m h))) = g x \<and> heap_extends (snd (m h)) (snd (f x (snd (m h))))"
  shows "fst (hp_bind m f h) = (case r1 of Inl e \<Rightarrow> Inl e | Inr x \<Rightarrow> g x)
         \<and> heap_extends h (snd (hp_bind m f h))"
proof -
  obtain r h1 where mh: "m h = (r, h1)" by (cases "m h")
  then have r: "r = r1" and e: "heap_extends h h1" using m by simp_all
  show ?thesis
  proof (cases r1)
    case (Inl e')
    then show ?thesis using mh r e by (simp add: hp_bind_def)
  next
    case (Inr x)
    then have run: "hp_bind m f h = f x h1" using mh r by (simp add: hp_bind_def)
    have "fst (f x h1) = g x \<and> heap_extends h1 (snd (f x h1))"
      using f [OF Inr] mh by simp
    then show ?thesis
      using Inr e run heap_extends_trans [of h h1 "snd (f x h1)"] by simp
  qed
qed

lemma abs_then_run:
  assumes a: "a < length (int16_arrays h)"
    and rd: "\<And>t h'. reader t h' = (red (int16_arrays h' ! t), h')"
    and k: "\<And>x h'. heap_extends h h' \<Longrightarrow>
              fst (k x h') = g x \<and> heap_extends h' (snd (k x h'))"
  shows "fst (hp_bind (np_abs_at a) (\<lambda>t. hp_bind (reader t) k) h)
           = (case red (np_abs (int16_arrays h ! a)) of Inl e \<Rightarrow> Inl e | Inr x \<Rightarrow> g x)
         \<and> heap_extends h (snd (hp_bind (np_abs_at a) (\<lambda>t. hp_bind (reader t) k) h))"
proof -
  define w where "w = int16_arrays h ! a"
  define h1 where "h1 = h\<lparr>int16_arrays := int16_arrays h @ [np_abs w]\<rparr>"
  have ext: "heap_extends h h1" by (simp add: h1_def heap_extends_def)
  have step: "hp_bind (np_abs_at a) (\<lambda>t. hp_bind (reader t) k) h
      = (case red (np_abs w) of Inl e \<Rightarrow> (Inl e, h1) | Inr x \<Rightarrow> k x h1)"
    by (simp add: hp_bind_def np_abs_at_def new_int16_def rd w_def h1_def split: sum.splits)
  show ?thesis
  proof (cases "red (np_abs w)")
    case (Inl e)
    then show ?thesis using step ext by (simp add: w_def)
  next
    case (Inr x)
    then show ?thesis using step ext k [OF ext, of x] heap_extends_trans
      by (auto simp: w_def)
  qed
qed

lemma analyze_audio_levels_at_run:
  assumes a: "a < length (int16_arrays h)"
  shows "fst (analyze_audio_levels_at a h) = analyze_audio_levels (int16_arrays h ! a)
     \<and> heap_extends h (snd (analyze_audio_levels_at a h))"
proof -
  define w where "w = int16_arrays h ! a"
  define result where "result = (\<lambda>mx mn mean avg rms r.
      \<lparr>max_amplitude = mx, min_amplitude = mn, mean_amplitude = mean,
       avg_db = avg, rms_db = rms, db_range = r\<rparr>)"
  define tail3 where "tail3 = (\<lambda>mx mn mean avg rms.
      hp_bind (detect_db_range_at a) (\<lambda>r. hp_return (result mx mn mean avg rms r)))"
  define tail2 where "tail2 = (\<lambda>mx mn mean avg.
      hp_bind (wave_to_db_rms_at a) (\<lambda>rms. tail3 mx mn mean avg rms))"
  define tail1 where "tail1 = (\<lambda>mx mn mean.
      hp_bind (wave_to_db_at a) (\<lambda>avg. tail2 mx mn mean avg))"
  define k2 where "k2 = (\<lambda>mx mn.
      hp_bind (np_abs_at a) (\<lambda>t3. hp_bind (np_mean_at t3) (\<lambda>mean. tail1 mx mn mean)))"
  define k1 where "k1 = (\<lambda>mx.
      hp_bind (np_abs_at a) (\<lambda>t2. hp_bind (np_min_at t2) (\<lambda>mn. k2 mx mn)))"
  define final where "final = (\<lambda>mx mn mean.
      case detect_db_range w of
        Inl e \<Rightarrow> Inl e
      | Inr r \<Rightarrow> Inr (result mx mn mean (wave_to_db w) (wave_to_db_rms w) r))"
  have prog: "analyze_audio_levels_at a
      = hp_bind (np_abs_at a) (\<lambda>t1. hp_bind (np_max_at t1) (\<lambda>mx. k1 mx))"
    by (simp add: analyze_audio_levels_at_def k1_def k2_def tail1_def tail2_def tail3_def
        result_def)
  have inv: "a < length (int16_arrays h') \<and> int16_arrays h' ! a = w"
    if "heap_extends h h'" for h'
    using heap_extends_int16 [OF that a] by (simp add: w_def)
  have t3: "fst (tail3 mx mn mean avg rms h')
        = (case detect_db_range w of Inl e \<Rightarrow> Inl e
           | Inr r \<Rightarrow> Inr (result mx mn mean avg rms r))
      \<and> heap_extends h' (snd (tail3 mx mn mean avg rms h'))"
    if "heap_extends h h'" for h' mx mn mean avg rms
    unfolding tail3_def
  proof (rule hp_bind_run)
    show "fst (detect_db_range_at a h') = detect_db_range w
        \<and> heap_extends h' (snd (detect_db_range_at a h'))"
      using detect_db_range_at_run [of a h'] inv [OF that] by simp
  qed (simp add: hp_return_def heap_extends_refl)
  have t2: "fst (tail2 mx mn mean avg h') = (case detect_db_range w of Inl e \<Rightarrow> Inl e
           | Inr r \<Rightarrow> Inr (result mx mn mean avg (wave_to_db_rms w) r))
      \<and> heap_extends h' (snd (tail2 mx mn mean avg h'))"
    if "heap_extends h h'" for h' mx mn mean avg
  proof -
    have m: "fst (wave_to_db_rms_at a h') = Inr (wave_to_db_rms w)
        \<and> heap_extends h' (snd (wave_to_db_rms_at a h'))"
      using wave_to_db_rms_at_run [of a h'] inv [OF that] by simp
    then have "heap_extends h (snd (wave_to_db_rms_at a h'))"
      using that heap_extends_trans by blast
    then have "fst (hp_bind (wave_to_db_rms_at a) (\<lambda>rms. tail3 mx mn mean avg rms) h')
        = (case Inr (wave_to_db_rms w) of Inl e \<Rightarrow> Inl e
           | Inr rms \<Rightarrow> (case detect_db_range w of Inl e \<Rightarrow> Inl e
               | Inr r \<Rightarrow> Inr (result mx mn mean avg rms r)))
      \<and> heap_extends h' (snd (hp_bind (wave_to_db_rms_at a)
            (\<lambda>rms. tail3 mx mn mean avg rms) h'))"
      using m by (intro hp_bind_run t3) simp_all
    then show ?thesis by (simp add: tail2_def)
  qed
  have t1: "fst (tail1 mx mn mean h') = final mx mn mean
      \<and> heap_extends h' (snd (tail1 mx mn mean h'))"
    if "heap_extends h h'" for h' mx mn mean
  proof -
    have m: "fst (wave_to_db_at a h') = Inr (wave_to_db w)
        \<and> heap_extends h' (snd (wave_to_db_at a h'))"
      using wave_to_db_at_run [of a h'] inv [OF that] by simp
    then have "heap_extends h (snd (wave_to_db_at a h'))"
      using that heap_extends_trans by blast
    then have "fst (hp_bind (wave_to_db_at a) (\<lambda>avg. tail2 mx mn mean avg) h')
        = (case Inr (wave_to_db w) of Inl e \<Rightarrow> Inl e
           | Inr avg \<Rightarrow> (case detect_db_range w of Inl e \<Rightarrow> Inl e
               | Inr r \<Rightarrow> Inr (result mx mn mean avg (wave_to_db_rms w) r)))
      \<and> heap_extends h' (snd (hp_bind (wave_to_db_at a)
            (\<lambda>avg. tail2 mx mn mean avg) h'))"
      using m by (intro hp_bind_run t2) simp_all
    then show ?thesis by (simp add: tail1_def final_def)
  qed
  have s2: "fst (k2 mx mn h') = final mx mn (np_mean (np_abs w))
      \<and> heap_extends h' (snd (k2 mx mn h'))"
    if "heap_extends h h'" for h' mx mn
  proof -
    have "fst (hp_bind (np_abs_at a) (\<lambda>t. hp_bind (np_mean_at t) (\<lambda>mean. tail1 mx mn mean)) h')
          = (case Inr (np_mean (np_abs (int16_arrays h' ! a))) of Inl e \<Rightarrow> Inl e
             | Inr mean \<Rightarrow> final mx mn mean)
        \<and> heap_extends h' (snd (hp_bind (np_abs_at a)
              (\<lambda>t. hp_bind (np_mean_at t) (\<lambda>mean. tail1 mx mn mean)) h'))"
    proof (rule abs_then_run)
      show "a < length (int16_arrays h')" using inv [OF that] by simp
      show "np_mean_at t h'' = (Inr (np_mean (int16_arrays h'' ! t)), h'')" for t h''
        by (simp add: np_mean_at_def)
      show "fst (tail1 mx mn x h'') = final mx mn x
          \<and> heap_extends h'' (snd (tail1 mx mn x h''))"
        if "heap_extends h' h''" for x h''
        using t1 [of h''] heap_extends_trans [OF \<open>heap_extends h h'\<close> that] by simp
    qed
    then show ?thesis using inv [OF that] by (simp add: k2_def)
  qed
  have s1: "fst (k1 mx h') = (case np_min (np_abs w) of Inl e \<Rightarrow> Inl e
           | Inr mn \<Rightarrow> final mx mn (np_mean (np_abs w)))
      \<and> heap_extends h' (snd (k1 mx h'))"
    if "heap_extends h h'" for h' mx
  proof -
    have "fst (hp_bind (np_abs_at a) (\<lambda>t. hp_bind (np_min_at t) (\<lambda>mn. k2 mx mn)) h')
          = (case np_min (np_abs (int16_arrays h' ! a)) of Inl e \<Rightarrow> Inl e
             | Inr mn \<Rightarrow> final mx mn (np_mean (np_abs w)))
        \<and> heap_extends h' (snd (hp_bind (np_abs_at a)
              (\<lambda>t. hp_bind (np_min_at t) (\<lambda>mn. k2 mx mn)) h'))"
    proof (rule abs_then_run)
      show "a < length (int16_arrays h')" using inv [OF that] by simp
      show "np_min_at t h'' = (np_min (int16_arrays h'' ! t), h'')" for t h''
        by (simp add: np_min_at_def)
      show "fst (k2 mx x h'') = final mx x (np_mean (np_abs w))
          \<and> heap_extends h'' (snd (k2 mx x h''))"
        if "heap_extends h' h''" for x h''
        using s2 [of h''] heap_extends_trans [OF \<open>heap_extends h h'\<close> that] by simp
    qed
    then show ?thesis using inv [OF that] by (simp add: k1_def)
  qed
  have s0: "fst (analyze_audio_levels_at a h)
        = (case np_max (np_abs (int16_arrays h ! a)) of Inl e \<Rightarrow> Inl e
           | Inr mx \<Rightarrow> (case np_min (np_abs w) of Inl e \<Rightarrow> Inl e
               | Inr mn \<Rightarrow> final mx mn (np_mean (np_abs w))))
      \<and> heap_extends h (snd (analyze_audio_levels_at a h))"
    unfolding prog
  proof (rule abs_then_run)
    show "a < length (int16_arrays h)" by (rule a)
    show "np_max_at t h'' = (np_max (int16_arrays h'' ! t), h'')" for t h''
      by (simp add: np_max_at_def)
    show "fst (k1 x h'') = (case np_min (np_abs w) of Inl e \<Rightarrow> Inl e
           | Inr mn \<Rightarrow> final x mn (np_mean (np_abs w)))
        \<and> heap_extends h'' (snd (k1 x h''))"
      if "heap_extends h h''" for x h''
      using s1 [OF that] .
  qed
  have "analyze_audio_levels w
      = (case np_max (np_abs w) of Inl e \<Rightarrow> Inl e
         | Inr mx \<Rightarrow> (case np_min (np_abs w) of Inl e \<Rightarrow> Inl e
             | Inr mn \<Rightarrow> final mx mn (np_mean (np_abs w))))"
    by (simp add: analyze_audio_levels_def final_def result_def Let_def split: sum.splits)
  then show ?thesis using s0 by (simp add: w_def)
qed

lemmas harmonic_prims = np_fft_at_def len_complex_at_def np_abs_complex_at_def
  greater_zero_at_def index_mask_float_at_def np_amax_at_def find_peaks_at_def len_intp_at_def
  index_intp_at_def argsort_desc_at_def collect_harmonics_at_def

lemma detect_harmonics_at_run:
  assumes a: "a < length (int16_arrays h)"
  shows "fst (detect_harmonics_at a sample_rate num_harmonics h)
       = detect_harmonics (int16_arrays h ! a) sample_rate num_harmonics
     \<and> heap_extends h (snd (detect_harmonics_at a sample_rate num_harmonics h))"
proof (cases "np_fft (int16_arrays h ! a)")
  case (Inl e)
  then show ?thesis
    by (simp add: detect_harmonics_at_def detect_harmonics_def positive_spectrum_def
        harmonic_prims heap_prims heap_extends_def)
next
  case fft: (Inr spectrum)
  show ?thesis
  proof (cases "sample_rate = 0")
    case True
    then show ?thesis using fft
      by (simp add: detect_harmonics_at_def detect_harmonics_def positive_spectrum_def
          harmonic_prims heap_prims heap_extends_def py_div_def)
  next
    case rate: False
    define freqs0 where "freqs0 = np_fftfreq (length spectrum) (1 / sample_rate)"
    define keep where "keep = map (\<lambda>f. 0 < f) freqs0"
    define freqs where "freqs = mask_select keep freqs0"
    define magnitude where "magnitude = mask_select keep (map cmod spectrum)"
    have spec: "positive_spectrum (int16_arrays h ! a) sample_rate = Inr (freqs, magnitude)"
      using fft rate
      by (simp add: positive_spectrum_def py_div_def Let_def freqs0_def keep_def freqs_def
          magnitude_def)
    show ?thesis
    proof (cases "np_amax magnitude")
      case (Inl e)
      then show ?thesis using fft rate spec
        by (simp add: detect_harmonics_at_def detect_harmonics_def top_peaks_def
            harmonic_prims heap_prims heap_extends_def py_div_def nth_append
            freqs0_def [symmetric] keep_def [symmetric] freqs_def [symmetric]
            magnitude_def [symmetric])
    next
      case amax: (Inr mx)
      define peaks where "peaks = find_peaks magnitude (mx * (1 / 100))"
      show ?thesis
      proof (cases "peaks = []")
        case True
        show ?thesis using fft rate spec amax True [unfolded peaks_def]
          by (simp add: detect_harmonics_at_def detect_harmonics_def top_peaks_def
              harmonic_prims heap_prims heap_extends_def py_div_def nth_append Let_def
              freqs0_def [symmetric] keep_def [symmetric] freqs_def [symmetric]
              magnitude_def [symmetric])
      next
        case False
        show ?thesis using fft rate spec amax False [unfolded peaks_def]
          by (simp add: detect_harmonics_at_def detect_harmonics_def top_peaks_def
              harmonic_prims heap_prims heap_extends_def py_div_def nth_append Let_def
              freqs0_def [symmetric] keep_def [symmetric] freqs_def [symmetric]
              magnitude_def [symmetric])
      qed
    qed
  qed
qed

text \<open>
  Claim C7: the analysis computations keep no persistent state. For two array objects
  of equal content, a run of \<open>analyze_audio_levels\<close> on the first followed by a run on
  the second, in the heap that the first run leaves behind, returns the same result
  (the value of the function on that content), and after both runs every array that
  existed before, the two inputs among them, is unchanged; the same holds for
  \<open>detect_harmonics\<close>.
\<close>

theorem analysis_keeps_no_state:
  assumes a: "a < length (int16_arrays h)" and b: "b < length (int16_arrays h)"
    and same: "int16_arrays h ! a = int16_arrays h ! b"
  shows "fst (analyze_audio_levels_at a h) = analyze_audio_levels (int16_arrays h ! a)
       \<and> fst (analyze_audio_levels_at b (snd (analyze_audio_levels_at a h)))
           = fst (analyze_audio_levels_at a h)
       \<and> heap_extends h (snd (analyze_audio_levels_at b (snd (analyze_audio_levels_at a h))))
       \<and> int16_arrays (snd (analyze_audio_levels_at b (snd (analyze_audio_levels_at a h)))) ! a
           = int16_arrays h ! a
       \<and> int16_arrays (snd (analyze_audio_levels_at b (snd (analyze_audio_levels_at a h)))) ! b
           = int16_arrays h ! b
       \<and> fst (detect_harmonics_at a sample_rate num_harmonics h)
           = detect_harmonics (int16_arrays h ! a) sample_rate num_harmonics
       \<and> fst (detect_harmonics_at b sample_rate num_harmonics
                 (snd (detect_harmonics_at a sample_rate num_harmonics h)))
           = fst (detect_harmonics_at a sample_rate num_harmonics h)
       \<and> heap_extends h (snd (detect_harmonics_at b sample_rate num_harmonics
                                 (snd (detect_harmonics_at a sample_rate num_harmonics h))))
       \<and> int16_arrays (snd (detect_harmonics_at b sample_rate num_harmonics
                               (snd (detect_harmonics_at a sample_rate num_harmonics h)))) ! a
           = int16_arrays h ! a
       \<and> int16_arrays (snd (detect_harmonics_at b sample_rate num_harmonics
                               (snd (detect_harmonics_at a sample_rate num_harmonics h)))) ! b
           = int16_arrays h ! b"
proof -
  let ?h1 = "snd (analyze_audio_levels_at a h)"
  let ?h2 = "snd (analyze_audio_levels_at b ?h1)"
  let ?g1 = "snd (detect_harmonics_at a sample_rate num_harmonics h)"
  let ?g2 = "snd (detect_harmonics_at b sample_rate num_harmonics ?g1)"
  note r1 = analyze_audio_levels_at_run [OF a]
  have b1: "b < length (int16_arrays ?h1) \<and> int16_arrays ?h1 ! b = int16_arrays h ! b"
    using heap_extends_int16 [OF _ b] r1 by blast
  then have r2: "fst (analyze_audio_levels_at b ?h1) = analyze_audio_levels (int16_arrays h ! b)
      \<and> heap_extends ?h1 ?h2"
    using analyze_audio_levels_at_run [of b ?h1] by simp
  have e2: "heap_extends h ?h2" using r1 r2 heap_extends_trans by blast
  note d1 = detect_harmonics_at_run [OF a, of sample_rate num_harmonics]
  have c1: "b < length (int16_arrays ?g1) \<and> int16_arrays ?g1 ! b = int16_arrays h ! b"
    using heap_extends_int16 [OF _ b] d1 by blast
  then have d2: "fst (detect_harmonics_at b sample_rate num_harmonics ?g1)
        = detect_harmonics (int16_arrays h ! b) sample_rate num_harmonics
      \<and> heap_extends ?g1 ?g2"
    using detect_harmonics_at_run [of b ?g1 sample_rate num_harmonics] by simp
  have f2: "heap_extends h ?g2" using d1 d2 heap_extends_trans by blast
  show ?thesis
    using r1 r2 e2 d1 d2 f2 same heap_extends_int16 [OF e2 a] heap_extends_int16 [OF e2 b]
      heap_extends_int16 [OF f2 a] heap_extends_int16 [OF f2 b]
    by simp
qed

theorem analysis_keeps_no_state_witness:
  "0 < length (int16_arrays twin_heap) \<and> 1 < length (int16_arrays twin_heap)
   \<and> int16_arrays twin_heap ! 0 = int16_arrays twin_heap ! 1
   \<and> fst (analyze_audio_levels_at 1 (snd (analyze_audio_levels_at 0 twin_heap)))
       = fst (analyze_audio_levels_at 0 twin_heap)
   \<and> int16_arrays (snd (analyze_audio_levels_at 1 (snd (analyze_audio_levels_at 0 twin_heap)))) ! 0
       = int16_arrays twin_heap ! 0
   \<and> fst (detect_harmonics_at 1 24 10 (snd (detect_harmonics_at 0 24 10 twin_heap)))
       = fst (detect_harmonics_at 0 24 10 twin_heap)
   \<and> int16_arrays (snd (detect_harmonics_at 1 24 10 (snd (detect_harmonics_at 0 24 10 twin_heap)))) ! 0
       = int16_arrays twin_heap ! 0"
proof -
  have a: "0 < length (int16_arrays twin_heap)" by (simp add: twin_heap_def)
  have b: "1 < length (int16_arrays twin_heap)" by (simp add: twin_heap_def)
  have s: "int16_arrays twin_heap ! 0 = int16_arrays twin_heap ! 1" by (simp add: twin_heap_def)
  show ?thesis
    using a b s analysis_keeps_no_state [OF a b s, of 24 10] by simp
qed

end
